theory Spec2Isabelle
  imports Main
begin

section \<open>Common types\<close>

text \<open>
  Python byte strings are lists of 8-bit characters. Exceptions are values: every
  function that can raise returns \<open>error + 'a\<close>, with \<open>Inl\<close> for the exception.
  \<open>Raised n\<close> stands for an exception whose class \<open>n\<close> is defined outside the two
  modules embedded here (for instance by the serializer or a key backend); the
  embedded functions never catch an exception, so such an error propagates unchanged.
\<close>

type_synonym bytes = "char list"

datatype error =
    RuntimeError
  | NotImplementedError
  | PacketDecodingError
  | ValueError
  | IndexError
  | OverflowError
  | Raised string

section \<open>attestation/identity\_formats.py\<close>

record identity_format =
  algorithm :: string
  key_size :: int
  hash :: string

text \<open>The module-level dictionary \<open>FORMATS\<close>, in source order.\<close>

definition FORMATS :: "(string \<times> identity_format) list" where
  "FORMATS =
    [(''id_metadata'',
        \<lparr>algorithm = ''bonehexact'', key_size = 32, hash = ''sha256_4''\<rparr>),
     (''id_metadata_big'',
        \<lparr>algorithm = ''bonehexact'', key_size = 64, hash = ''sha256''\<rparr>),
     (''id_metadata_huge'',
        \<lparr>algorithm = ''bonehexact'', key_size = 96, hash = ''sha512''\<rparr>)]"

text \<open>Python's \<open>k in d\<close> for a dictionary: membership among the keys.\<close>

definition dict_contains :: "('k \<times> 'v) list \<Rightarrow> 'k \<Rightarrow> bool" where
  "dict_contains d k = (k \<in> set (map fst d))"

text \<open>
  The instance state that \<open>IdentityAlgorithm.__init__\<close> sets up: the single
  attribute \<open>id_format\<close>.
\<close>

record IdentityAlgorithm =
  id_format :: string

text \<open>
  \<open>IdentityAlgorithm.__init__(self, id_format)\<close>: the attribute is assigned first,
  then the registry is consulted; an unregistered name raises \<open>RuntimeError\<close>, so
  no instance is returned to the caller.
\<close>

definition IdentityAlgorithm_init :: "string \<Rightarrow> error + IdentityAlgorithm" where
  "IdentityAlgorithm_init name =
     (let self = \<lparr>id_format = name\<rparr>
      in if \<not> dict_contains FORMATS name then Inl RuntimeError else Inr self)"

datatype attestation = Attestation_object

text \<open>
  \<open>Attestation.unserialize(cls, s, id_format)\<close>: the body is the single statement
  \<open>raise NotImplementedError()\<close>. Python does not constrain the arguments, so
  they are of arbitrary type here.
\<close>

definition Attestation_unserialize :: "'s \<Rightarrow> 'i \<Rightarrow> error + attestation" where
  "Attestation_unserialize s fmt = Inl NotImplementedError"

section \<open>Python built-ins used by lazy\_community.py\<close>

text \<open>
  Slicing \<open>xs[lo:hi]\<close> with optional integer bounds: a negative bound counts from
  the end, and every bound is clamped to \<open>0 .. len(xs)\<close>.
\<close>

definition slice_index :: "int \<Rightarrow> int \<Rightarrow> int" where
  "slice_index n i = (if i < 0 then max (n + i) 0 else min i n)"

definition py_slice :: "'a list \<Rightarrow> int option \<Rightarrow> int option \<Rightarrow> 'a list" where
  "py_slice xs lo hi =
     (let n = int (length xs);
          a = (case lo of None \<Rightarrow> 0 | Some i \<Rightarrow> slice_index n i);
          b = (case hi of None \<Rightarrow> n | Some j \<Rightarrow> slice_index n j)
      in take (nat (b - a)) (drop (nat a) xs))"

text \<open>\<open>xs.startswith(p)\<close> on byte strings.\<close>

definition startswith :: "bytes \<Rightarrow> bytes \<Rightarrow> bool" where
  "startswith xs p = (take (length p) xs = p)"

text \<open>
  Modelled from the spec: \<open>cast_to_bin\<close> of \<open>ipv8/util.py\<close>, which is not among
  the sources. \<open>cast_to_bin(chr(msg_num))\<close> yields the single byte of the message
  id. Outside \<open>0 .. 255\<close> there is no such byte and Python raises: \<open>ValueError\<close>
  while the number fits a C \<open>int\<close>, and \<open>OverflowError\<close> from \<open>chr\<close> beyond that.
\<close>

definition cast_to_bin_chr :: "int \<Rightarrow> error + bytes" where
  "cast_to_bin_chr msg_num =
     (if 0 \<le> msg_num \<and> msg_num < 256 then Inr [char_of msg_num]
      else if - (2 ^ 31) \<le> msg_num \<and> msg_num < 2 ^ 31 then Inl ValueError
      else Inl OverflowError)"

section \<open>Collaborators of lazy\_community.py\<close>

text \<open>
  The serializer, the two signature backends and the payload classes live outside
  the embedded module. They are parameters: records of functions, each of which may
  raise. A \<open>Peer\<close> object is represented by the two values it is constructed from,
  the public key bytes and the address; a handler is a parameter as well.
\<close>

datatype payload_class =
    BinMemberAuthenticationPayload
  | GlobalTimeDistributionPayload
  | PayloadClass string

text \<open>
  Python classes of private keys, as far as \<open>type(key) == LibNaCLSK\<close> can tell them
  apart: the class itself, a class derived from another one, or an unrelated class.
\<close>

datatype py_type =
    LibNaCLSK
  | DerivedFrom py_type string
  | UnrelatedClass string

fun issubclass_LibNaCLSK :: "py_type \<Rightarrow> bool" where
  "issubclass_LibNaCLSK LibNaCLSK = True"
| "issubclass_LibNaCLSK (DerivedFrom c n) = issubclass_LibNaCLSK c"
| "issubclass_LibNaCLSK (UnrelatedClass n) = False"

text \<open>
  A private key object: its class, and the attributes \<open>key.veri.vk\<close> and
  \<open>key.key.seed\<close> that the accelerated signer reads.
\<close>

record private_key =
  key_type :: py_type
  veri_vk :: bytes
  key_seed :: bytes

type_synonym address = "string \<times> int"

datatype peer = Peer bytes address

text \<open>What a handler receives after the peer: decoded payloads and, possibly, raw bytes.\<close>

datatype 'p arg = Payload 'p | RawData bytes

record ('p, 'f) Serializer =
  unpack_to_serializables :: "payload_class list \<Rightarrow> bytes \<Rightarrow> error + ('p list \<times> bytes)"
  ez_unpack_serializables :: "payload_class list \<Rightarrow> bytes \<Rightarrow> error + 'p list"
  pack_multiple :: "'f \<Rightarrow> error + (bytes \<times> int)"

record 'k ECCrypto =
  key_from_public_bin :: "bytes \<Rightarrow> error + 'k"
  get_signature_length :: "'k \<Rightarrow> error + int"
  is_valid_signature :: "'k \<Rightarrow> bytes \<Rightarrow> bytes \<Rightarrow> error + bool"
  create_signature :: "private_key \<Rightarrow> bytes \<Rightarrow> error + bytes"

record Bundler =
  borrowed_verify_signature :: "bytes \<Rightarrow> bytes \<Rightarrow> error + (bool \<times> bytes)"
  borrowed_create_signature :: "bytes \<Rightarrow> bytes \<Rightarrow> bytes \<Rightarrow> error + bytes"

text \<open>
  The names the module imports: \<open>default_eccrypto\<close>, \<open>borrowed_bundler\<close>, the
  constructor and the \<open>public_key_bin\<close> attribute of
  \<open>BinMemberAuthenticationPayload\<close>, and the \<open>to_pack_list\<close> method of payloads.
\<close>

record ('p, 'f, 'k) Imports =
  default_eccrypto :: "'k ECCrypto"
  borrowed_bundler :: Bundler
  new_BinMemberAuthenticationPayload :: "bytes \<Rightarrow> 'p"
  public_key_bin :: "'p \<Rightarrow> bytes"
  to_pack_list :: "'p \<Rightarrow> 'f"

text \<open>\<open>self.my_peer\<close>: the private key and \<open>public_key.key_to_bin()\<close>.\<close>

record MyPeer =
  peer_key :: private_key
  public_key_key_to_bin :: bytes

text \<open>The attributes of an \<open>EZPackOverlay\<close> instance that the module reads.\<close>

record ('p, 'f) EZPackOverlay =
  serializer :: "('p, 'f) Serializer"
  my_peer :: MyPeer
  overlay_prefix :: bytes

section \<open>Runs: results with the trace of collaborator calls\<close>

text \<open>
  Several claims speak about which collaborator is called, how often and in which
  order. A run therefore pairs the outcome with the list of calls made, in order.
\<close>

datatype ('p, 'f, 'k) event =
    Unpack_to_serializables "payload_class list" bytes
  | Ez_unpack_serializables "payload_class list" bytes
  | Pack_multiple 'f
  | Key_from_public_bin bytes
  | Get_signature_length 'k
  | Is_valid_signature 'k bytes bytes
  | Create_signature private_key bytes
  | Borrowed_verify_signature bytes bytes
  | Borrowed_create_signature bytes bytes bytes
  | Handler peer "'p arg list"

type_synonym ('p, 'f, 'k, 'a) run = "('p, 'f, 'k) event list \<times> (error + 'a)"

definition returns :: "'a \<Rightarrow> ('p, 'f, 'k, 'a) run" where
  "returns x = ([], Inr x)"

definition raises :: "error \<Rightarrow> ('p, 'f, 'k, 'a) run" where
  "raises e = ([], Inl e)"

text \<open>A call to a collaborator: the call is recorded, its outcome is the outcome.\<close>

definition call :: "('p, 'f, 'k) event \<Rightarrow> error + 'a \<Rightarrow> ('p, 'f, 'k, 'a) run" where
  "call ev r = ([ev], r)"

text \<open>Sequencing: an exception ends the run, keeping the calls made so far.\<close>

definition and_then ::
  "('p, 'f, 'k, 'a) run \<Rightarrow> ('a \<Rightarrow> ('p, 'f, 'k, 'b) run) \<Rightarrow> ('p, 'f, 'k, 'b) run" where
  "and_then m f =
     (case m of
        (tr, Inl e) \<Rightarrow> (tr, Inl e)
      | (tr, Inr x) \<Rightarrow> (case f x of (tr', r) \<Rightarrow> (tr @ tr', r)))"

text \<open>Observations on a trace.\<close>

fun handler_calls :: "('p, 'f, 'k) event list \<Rightarrow> (peer \<times> 'p arg list) list" where
  "handler_calls [] = []"
| "handler_calls (Handler p args # tr) = (p, args) # handler_calls tr"
| "handler_calls (ev # tr) = handler_calls tr"

fun payload_deserializations ::
  "('p, 'f, 'k) event list \<Rightarrow> (payload_class list \<times> bytes) list" where
  "payload_deserializations [] = []"
| "payload_deserializations (Ez_unpack_serializables cs bs # tr) =
     (cs, bs) # payload_deserializations tr"
| "payload_deserializations (ev # tr) = payload_deserializations tr"

fun accelerated_backend_event :: "('p, 'f, 'k) event \<Rightarrow> bool" where
  "accelerated_backend_event (Borrowed_verify_signature pk d) = True"
| "accelerated_backend_event (Borrowed_create_signature seed vk d) = True"
| "accelerated_backend_event ev = False"

fun default_backend_event :: "('p, 'f, 'k) event \<Rightarrow> bool" where
  "default_backend_event (Key_from_public_bin pk) = True"
| "default_backend_event (Get_signature_length k) = True"
| "default_backend_event (Is_valid_signature k d s) = True"
| "default_backend_event (Create_signature k d) = True"
| "default_backend_event ev = False"

section \<open>lazy\_community.py: class EZPackOverlay\<close>

text \<open>
  \<open>EZPackOverlay._verify_signature(self, auth, data)\<close>. A public key that starts
  with the marker goes to the bundler, whose result is returned as it is. Every
  other key goes through \<open>default_eccrypto\<close>: the key object, its signature
  length \<open>n\<close>, then \<open>remainder = data[23 + 2 + len(public_key_bin) : -n]\<close>,
  \<open>signature = data[-n:]\<close> and the check of \<open>data[:-n]\<close>.
\<close>

definition verify_signature ::
  "('p, 'f, 'k) Imports \<Rightarrow> 'p \<Rightarrow> bytes \<Rightarrow> ('p, 'f, 'k, bool \<times> bytes) run" where
  "verify_signature G auth data =
     (if startswith (public_key_bin G auth) ''LibNaCLPK:'' then
        call (Borrowed_verify_signature (public_key_bin G auth) data)
             (borrowed_verify_signature (borrowed_bundler G) (public_key_bin G auth) data)
      else
        let ec = default_eccrypto G in
        and_then (call (Key_from_public_bin (public_key_bin G auth))
                       (key_from_public_bin ec (public_key_bin G auth)))
          (\<lambda>public_key.
        and_then (call (Get_signature_length public_key) (get_signature_length ec public_key))
          (\<lambda>signature_length.
        let remainder = py_slice data (Some (23 + 2 + int (length (public_key_bin G auth))))
                                      (Some (- signature_length));
            signature = py_slice data (Some (- signature_length)) None;
            signed = py_slice data None (Some (- signature_length))
        in
        and_then (call (Is_valid_signature public_key signed signature)
                       (is_valid_signature ec public_key signed signature))
          (\<lambda>valid. returns (valid, remainder)))))"

text \<open>
  The loop of \<open>_ez_pack\<close>:
  \<open>for format_list in format_list_list: packet += self.serializer.pack_multiple(format_list)[0]\<close>.
\<close>

fun pack_groups ::
  "('p, 'f) Serializer \<Rightarrow> bytes \<Rightarrow> 'f list \<Rightarrow> ('p, 'f, 'k, bytes) run" where
  "pack_groups ser packet [] = returns packet"
| "pack_groups ser packet (format_list # rest) =
     and_then (call (Pack_multiple format_list) (pack_multiple ser format_list))
       (\<lambda>packed. pack_groups ser (packet @ fst packed) rest)"

text \<open>
  \<open>EZPackOverlay._ez_pack(self, prefix, msg_num, format_list_list, sig)\<close>. With
  \<open>sig\<close> set, a key whose type is exactly \<open>LibNaCLSK\<close> hands the packet to the
  bundler and the bundler's result replaces the packet; any other key has the
  result of \<open>default_eccrypto.create_signature\<close> appended to the packet.
\<close>

definition ez_pack ::
  "('p, 'f, 'k) Imports \<Rightarrow> ('p, 'f) EZPackOverlay \<Rightarrow> bytes \<Rightarrow> int \<Rightarrow> 'f list \<Rightarrow> bool
     \<Rightarrow> ('p, 'f, 'k, bytes) run" where
  "ez_pack G self prefix msg_num format_list_list sig =
     and_then (case cast_to_bin_chr msg_num of Inl e \<Rightarrow> raises e | Inr b \<Rightarrow> returns (prefix @ b))
       (\<lambda>packet0.
     and_then (pack_groups (serializer self) packet0 format_list_list)
       (\<lambda>packet.
     if sig then
       if key_type (peer_key (my_peer self)) = LibNaCLSK then
         let key = veri_vk (peer_key (my_peer self));
             seed = key_seed (peer_key (my_peer self))
         in call (Borrowed_create_signature seed key packet)
                 (borrowed_create_signature (borrowed_bundler G) seed key packet)
       else
         and_then (call (Create_signature (peer_key (my_peer self)) packet)
                        (create_signature (default_eccrypto G) (peer_key (my_peer self)) packet))
           (\<lambda>signature. returns (packet @ signature))
     else returns packet))"


text \<open>
  \<open>auth, remainder = self.serializer.unpack_to_serializables([BinMemberAuthenticationPayload, ], data[23:])\<close>:
  the serializer returns its objects followed by the bytes left over; the assignment to
  two names needs exactly one object and raises \<open>ValueError\<close> otherwise.
\<close>

definition unpack_auth ::
  "('p, 'f) EZPackOverlay \<Rightarrow> bytes \<Rightarrow> ('p, 'f, 'k, 'p \<times> bytes) run" where
  "unpack_auth self data =
     and_then (call (Unpack_to_serializables [BinMemberAuthenticationPayload]
                       (py_slice data (Some 23) None))
                    (unpack_to_serializables (serializer self) [BinMemberAuthenticationPayload]
                       (py_slice data (Some 23) None)))
       (\<lambda>(objects, remainder).
          case objects of [auth] \<Rightarrow> returns (auth, remainder) | _ \<Rightarrow> raises ValueError)"

text \<open>
  \<open>EZPackOverlay._ez_unpack_auth(self, payload_class, data)\<close>. The three phases of
  the source: unpack (auth header, signature, then both payloads, with
  \<open>dist, payload = ...\<close> needing exactly two objects), assert, produce.
\<close>

definition ez_unpack_auth ::
  "('p, 'f, 'k) Imports \<Rightarrow> ('p, 'f) EZPackOverlay \<Rightarrow> payload_class \<Rightarrow> bytes
     \<Rightarrow> ('p, 'f, 'k, 'p \<times> 'p \<times> 'p) run" where
  "ez_unpack_auth G self payload_class data =
     and_then (unpack_auth self data)
       (\<lambda>(auth, remainder0).
     and_then (verify_signature G auth data)
       (\<lambda>(signature_valid, remainder).
     let format = [GlobalTimeDistributionPayload, payload_class] in
     and_then (call (Ez_unpack_serializables format remainder)
                    (ez_unpack_serializables (serializer self) format remainder))
       (\<lambda>unpacked.
     case unpacked of
       [dist, payload] \<Rightarrow>
         if \<not> signature_valid then raises PacketDecodingError
         else returns (auth, dist, payload)
     | _ \<Rightarrow> raises ValueError)))"

text \<open>
  \<open>EZPackOverlay._ez_unpack_noauth(self, payload_class, data, global_time)\<close>
  returns the list \<open>unpacked\<close> when \<open>global_time\<close> is set and \<open>unpacked[0]\<close>
  otherwise (\<open>IndexError\<close> on an empty list).
\<close>

datatype 'p unpacked = PayloadList "'p list" | PayloadObject 'p

definition ez_unpack_noauth ::
  "('p, 'f) EZPackOverlay \<Rightarrow> payload_class \<Rightarrow> bytes \<Rightarrow> bool
     \<Rightarrow> ('p, 'f, 'k, 'p unpacked) run" where
  "ez_unpack_noauth self payload_class data global_time =
     (let format = (if global_time then [GlobalTimeDistributionPayload, payload_class]
                    else [payload_class])
      in and_then (call (Ez_unpack_serializables format (py_slice data (Some 23) None))
                        (ez_unpack_serializables (serializer self) format
                           (py_slice data (Some 23) None)))
           (\<lambda>unpacked.
              if global_time then returns (PayloadList unpacked)
              else (case unpacked of [] \<Rightarrow> raises IndexError
                    | first # others \<Rightarrow> returns (PayloadObject first))))"

section \<open>lazy\_community.py: the authenticated wrappers\<close>

text \<open>
  \<open>lazy_wrapper(*payloads)(func)(self, source_address, data)\<close>. The handler
  \<open>func\<close> is a parameter; calling it is recorded as a \<open>Handler\<close> event with the
  peer and the arguments that follow it.
\<close>

definition lazy_wrapper ::
  "('p, 'f, 'k) Imports \<Rightarrow> payload_class list
     \<Rightarrow> (('p, 'f) EZPackOverlay \<Rightarrow> peer \<Rightarrow> 'p arg list \<Rightarrow> error + 'r)
     \<Rightarrow> ('p, 'f) EZPackOverlay \<Rightarrow> address \<Rightarrow> bytes \<Rightarrow> ('p, 'f, 'k, 'r) run" where
  "lazy_wrapper G payloads func self source_address data =
     and_then (unpack_auth self data)
       (\<lambda>(auth, remainder0).
     and_then (verify_signature G auth data)
       (\<lambda>(signature_valid, remainder).
     and_then (call (Ez_unpack_serializables payloads remainder)
                    (ez_unpack_serializables (serializer self) payloads remainder))
       (\<lambda>unpacked.
     if \<not> signature_valid then raises PacketDecodingError
     else
       let p = Peer (public_key_bin G auth) source_address;
           args = map Payload unpacked
       in call (Handler p args) (func self p args))))"

text \<open>
  \<open>lazy_wrapper_wd\<close>: the same, with \<open>output = unpacked + [data]\<close> passed on.
\<close>

definition lazy_wrapper_wd ::
  "('p, 'f, 'k) Imports \<Rightarrow> payload_class list
     \<Rightarrow> (('p, 'f) EZPackOverlay \<Rightarrow> peer \<Rightarrow> 'p arg list \<Rightarrow> error + 'r)
     \<Rightarrow> ('p, 'f) EZPackOverlay \<Rightarrow> address \<Rightarrow> bytes \<Rightarrow> ('p, 'f, 'k, 'r) run" where
  "lazy_wrapper_wd G payloads func self source_address data =
     and_then (unpack_auth self data)
       (\<lambda>(auth, remainder0).
     and_then (verify_signature G auth data)
       (\<lambda>(signature_valid, remainder).
     and_then (call (Ez_unpack_serializables payloads remainder)
                    (ez_unpack_serializables (serializer self) payloads remainder))
       (\<lambda>unpacked.
     if \<not> signature_valid then raises PacketDecodingError
     else
       let p = Peer (public_key_bin G auth) source_address;
           output = map Payload unpacked @ [RawData data]
       in call (Handler p output) (func self p output))))"

section \<open>Notions of the specification\<close>

text \<open>
  The byte range of \<open>data\<close> from offset \<open>start\<close> up to, not including, offset
  \<open>stop\<close>; empty when \<open>stop\<close> does not lie after \<open>start\<close>.
\<close>

definition bytes_between :: "bytes \<Rightarrow> nat \<Rightarrow> nat \<Rightarrow> bytes" where
  "bytes_between data start stop = take (stop - start) (drop start data)"

text \<open>The bytes a payload group serializes to, if the serializer accepts it.\<close>

definition serialized :: "('p, 'f) Serializer \<Rightarrow> 'f \<Rightarrow> bytes option" where
  "serialized ser format_list =
     (case pack_multiple ser format_list of Inl e \<Rightarrow> None | Inr packed \<Rightarrow> Some (fst packed))"


section \<open>A concrete set of collaborators\<close>

text \<open>
  A small serializer and two small signature backends, on which the theorems below
  are instantiated. The auth header is a two-byte length (the second byte is the
  digit character of the length) followed by the key; every other payload class
  takes one byte. The default backend signs with \<open>OK\<close>, the bundler with \<open>RS\<close>.
\<close>

datatype demo_payload = AuthObject bytes | DataObject bytes

definition demo_serializer :: "(demo_payload, bytes) Serializer" where
  "demo_serializer =
     \<lparr>unpack_to_serializables =
        (\<lambda>classes bs. case bs of
             hi # lo # rest \<Rightarrow>
               if of_char lo - 48 \<le> length rest
               then Inr ([AuthObject (take (of_char lo - 48) rest)], drop (of_char lo - 48) rest)
               else Inl (Raised ''PackError'')
           | _ \<Rightarrow> Inl (Raised ''PackError'')),
      ez_unpack_serializables =
        (\<lambda>classes bs. if length classes \<le> length bs
                       then Inr (map (\<lambda>b. DataObject [b]) (take (length classes) bs))
                       else Inl (Raised ''PackError'')),
      pack_multiple = (\<lambda>format_list. Inr (format_list, int (length format_list)))\<rparr>"

definition demo_eccrypto :: "bytes ECCrypto" where
  "demo_eccrypto =
     \<lparr>key_from_public_bin = (\<lambda>pk. if pk = [] then Inl (Raised ''ValueError'') else Inr pk),
      get_signature_length = (\<lambda>k. Inr 2),
      is_valid_signature = (\<lambda>k signed signature. Inr (signature = ''OK'')),
      create_signature = (\<lambda>k packet. Inr ''OK'')\<rparr>"

definition demo_bundler :: Bundler where
  "demo_bundler =
     \<lparr>borrowed_verify_signature =
        (\<lambda>pk data. Inr (drop (length data - 2) data = ''RS'',
                         take (length data - 2 - (25 + length pk)) (drop (25 + length pk) data))),
      borrowed_create_signature = (\<lambda>seed vk packet. Inr (packet @ ''RS''))\<rparr>"

fun demo_public_key_bin :: "demo_payload \<Rightarrow> bytes" where
  "demo_public_key_bin (AuthObject pk) = pk"
| "demo_public_key_bin (DataObject bs) = []"

fun demo_to_pack_list :: "demo_payload \<Rightarrow> bytes" where
  "demo_to_pack_list (AuthObject pk) = [CHR ''0'', char_of (48 + length pk)] @ pk"
| "demo_to_pack_list (DataObject bs) = bs"

definition demo_imports :: "(demo_payload, bytes, bytes) Imports" where
  "demo_imports =
     \<lparr>default_eccrypto = demo_eccrypto,
      borrowed_bundler = demo_bundler,
      new_BinMemberAuthenticationPayload = AuthObject,
      public_key_bin = demo_public_key_bin,
      to_pack_list = demo_to_pack_list\<rparr>"


definition demo_overlay :: "py_type \<Rightarrow> (demo_payload, bytes) EZPackOverlay" where
  "demo_overlay t =
     \<lparr>serializer = demo_serializer,
      my_peer = \<lparr>peer_key = \<lparr>key_type = t, veri_vk = ''vk'', key_seed = ''seed''\<rparr>,
                 public_key_key_to_bin = ''pk''\<rparr>,
      overlay_prefix = ''0123456789012345678901''\<rparr>"

definition demo_handler ::
  "(demo_payload, bytes) EZPackOverlay \<Rightarrow> peer \<Rightarrow> demo_payload arg list \<Rightarrow> error + nat" where
  "demo_handler self p args = Inr (length args)"


definition demo_address :: address where
  "demo_address = (''10.0.0.1'', 8090)"

text \<open>
  Packets: a validly signed one, one with a corrupted signature, one with a corrupted
  signature whose payload region is a byte short, and one of an accelerated key.
\<close>

definition demo_packet :: bytes where
  "demo_packet = ''0123456789012345678901m02pkabOK''"

definition demo_packet_tampered :: bytes where
  "demo_packet_tampered = ''0123456789012345678901m02pkabXX''"

definition demo_packet_truncated :: bytes where
  "demo_packet_truncated = ''0123456789012345678901m02pkaXX''"

definition demo_packet_accelerated :: bytes where
  "demo_packet_accelerated = ''0123456789012345678901m0:LibNaCLPK:abRS''"

text \<open>A packet whose auth header carries the empty key, which the default backend refuses.\<close>

definition demo_packet_bad_key :: bytes where
  "demo_packet_bad_key = ''0123456789012345678901m00abOK''"

definition demo_packet_unsigned :: bytes where
  "demo_packet_unsigned = ''0123456789012345678901mgab''"

section \<open>Properties of identity\_formats.py\<close>

lemma dict_contains_FORMATS:
  "dict_contains FORMATS name \<longleftrightarrow>
     name = ''id_metadata'' \<or> name = ''id_metadata_big'' \<or> name = ''id_metadata_huge''"
  by (auto simp: dict_contains_def FORMATS_def)

text \<open>
  Claim C6. Constructing an \<open>IdentityAlgorithm\<close> with a name that is not a key of
  \<open>FORMATS\<close> raises; constructing it with one of the three registered names
  succeeds; and every instance that construction returns carries the given name in
  \<open>id_format\<close>, that name being registered.
\<close>

theorem IdentityAlgorithm_init_registered:
  "(\<not> dict_contains FORMATS name \<longrightarrow> IdentityAlgorithm_init name = Inl RuntimeError)
   \<and> (name \<in> {''id_metadata'', ''id_metadata_big'', ''id_metadata_huge''}
        \<longrightarrow> (\<exists>self. IdentityAlgorithm_init name = Inr self))
   \<and> (\<forall>self. IdentityAlgorithm_init name = Inr self
        \<longrightarrow> id_format self = name \<and> dict_contains FORMATS name)"
  by (auto simp: IdentityAlgorithm_init_def Let_def dict_contains_FORMATS)

theorem IdentityAlgorithm_init_registered_witness:
  "\<not> dict_contains FORMATS ''id_meta''
   \<and> IdentityAlgorithm_init ''id_meta'' = Inl RuntimeError
   \<and> ''id_metadata_big'' \<in> {''id_metadata'', ''id_metadata_big'', ''id_metadata_huge''}
   \<and> IdentityAlgorithm_init ''id_metadata_big'' = Inr \<lparr>id_format = ''id_metadata_big''\<rparr>
   \<and> id_format \<lparr>id_format = ''id_metadata_big''\<rparr> = ''id_metadata_big''
   \<and> dict_contains FORMATS ''id_metadata_big''"
proof -
  have unreg: "\<not> dict_contains FORMATS ''id_meta''"
    by (simp add: dict_contains_FORMATS)
  have built: "IdentityAlgorithm_init ''id_metadata_big'' = Inr \<lparr>id_format = ''id_metadata_big''\<rparr>"
    by (simp add: IdentityAlgorithm_init_def Let_def dict_contains_FORMATS)
  from IdentityAlgorithm_init_registered [of "''id_meta''"] unreg
  have raised: "IdentityAlgorithm_init ''id_meta'' = Inl RuntimeError"
    by blast
  from IdentityAlgorithm_init_registered [of "''id_metadata_big''"] built
  have kept: "id_format \<lparr>id_format = ''id_metadata_big''\<rparr> = ''id_metadata_big''
              \<and> dict_contains FORMATS ''id_metadata_big''"
    by blast
  from unreg raised built kept show ?thesis
    by simp
qed

text \<open>
  Claim C7. For every string \<open>s\<close> and every \<open>id_format\<close>, registered or not, the
  base-class method \<open>Attestation.unserialize\<close> raises \<open>NotImplementedError\<close>;
  the outcome does not depend on either argument.
\<close>

theorem Attestation_unserialize_raises:
  "Attestation_unserialize s fmt = Inl NotImplementedError"
  by (simp add: Attestation_unserialize_def)

section \<open>Facts about runs and slices\<close>

lemma and_then_call_Inr: "and_then (call ev (Inr x)) f = (ev # fst (f x), snd (f x))"
  by (simp add: and_then_def call_def split: prod.splits)

lemma and_then_call_Inl: "and_then (call ev (Inl e)) f = ([ev], Inl e)"
  by (simp add: and_then_def call_def)

lemma and_then_Inr: "and_then (tr, Inr x) f = (tr @ fst (f x), snd (f x))"
  by (simp add: and_then_def split: prod.splits)

lemma and_then_Inl: "and_then (tr, Inl e) f = (tr, Inl e)"
  by (simp add: and_then_def)

lemma handler_calls_append: "handler_calls (xs @ ys) = handler_calls xs @ handler_calls ys"
  by (induction xs rule: handler_calls.induct) simp_all

lemma payload_deserializations_append:
  "payload_deserializations (xs @ ys) = payload_deserializations xs @ payload_deserializations ys"
  by (induction xs rule: payload_deserializations.induct) simp_all

lemma startswith_iff: "startswith xs p \<longleftrightarrow> (\<exists>rest. xs = p @ rest)"
  unfolding startswith_def
proof
  assume "take (length p) xs = p"
  then have "xs = p @ drop (length p) xs"
    by (metis append_take_drop_id)
  then show "\<exists>rest. xs = p @ rest" ..
next
  assume "\<exists>rest. xs = p @ rest"
  then show "take (length p) xs = p" by auto
qed

lemma slice_index_neg: "0 < n \<Longrightarrow> slice_index (int L) (- n) = int (L - nat n)"
  by (auto simp: slice_index_def max_def)

lemma slice_index_nonneg: "0 \<le> a \<Longrightarrow> slice_index (int L) a = int (min (nat a) L)"
  by (auto simp: slice_index_def min_def)

lemma py_slice_from_to_end:
  assumes "0 \<le> a" "0 < n"
  shows "py_slice data (Some a) (Some (- n)) = bytes_between data (nat a) (length data - nat n)"
proof -
  let ?L = "length data"
  have "py_slice data (Some a) (Some (- n)) =
          take (nat (int (?L - nat n) - int (min (nat a) ?L))) (drop (min (nat a) ?L) data)"
    using assms by (simp add: py_slice_def Let_def slice_index_neg slice_index_nonneg)
  also have "nat (int (?L - nat n) - int (min (nat a) ?L)) = (?L - nat n) - min (nat a) ?L"
    by linarith
  also have "take ((?L - nat n) - min (nat a) ?L) (drop (min (nat a) ?L) data) =
             take ((?L - nat n) - nat a) (drop (nat a) data)"
    by (cases "nat a \<le> ?L") (simp_all add: min_def)
  finally show ?thesis
    by (simp add: bytes_between_def)
qed

lemma py_slice_from: "0 \<le> a \<Longrightarrow> py_slice data (Some a) None = drop (nat a) data"
  by (simp add: py_slice_def Let_def slice_index_nonneg min_def)

lemma py_slice_last:
  "0 < n \<Longrightarrow> py_slice data (Some (- n)) None = drop (length data - nat n) data"
  by (simp add: py_slice_def Let_def slice_index_neg)

lemma py_slice_but_last:
  "0 < n \<Longrightarrow> py_slice data None (Some (- n)) = take (length data - nat n) data"
  by (simp add: py_slice_def Let_def slice_index_neg)

text \<open>
  With a signature length of zero the bound \<open>-0\<close> is the bound \<open>0\<close>: the slice
  \<open>data[a:-0]\<close> is empty, whatever \<open>a\<close> is.
\<close>

lemma py_slice_to_minus_zero: "0 \<le> a \<Longrightarrow> py_slice data (Some a) (Some (- 0)) = []"
  by (simp add: py_slice_def Let_def slice_index_def)

section \<open>Evaluating the concrete collaborators\<close>

lemmas demo_defs =
  demo_imports_def demo_overlay_def demo_serializer_def demo_eccrypto_def demo_bundler_def
  demo_handler_def demo_address_def

lemmas demo_packets =
  demo_packet_def demo_packet_tampered_def demo_packet_truncated_def
  demo_packet_accelerated_def

lemmas run_defs = and_then_def call_def returns_def raises_def

lemma demo_verify_default:
  "verify_signature demo_imports (AuthObject ''pk'') demo_packet =
     ([Key_from_public_bin ''pk'', Get_signature_length ''pk'',
       Is_valid_signature ''pk'' ''0123456789012345678901m02pkab'' ''OK''],
      Inr (True, ''ab''))"
  by (simp add: verify_signature_def startswith_def demo_defs demo_packets run_defs
        py_slice_def slice_index_def Let_def)

lemma demo_verify_tampered:
  "verify_signature demo_imports (AuthObject ''pk'') demo_packet_tampered =
     ([Key_from_public_bin ''pk'', Get_signature_length ''pk'',
       Is_valid_signature ''pk'' ''0123456789012345678901m02pkab'' ''XX''],
      Inr (False, ''ab''))"
  by (simp add: verify_signature_def startswith_def demo_defs demo_packets run_defs
        py_slice_def slice_index_def Let_def)

lemma demo_verify_truncated:
  "verify_signature demo_imports (AuthObject ''pk'') demo_packet_truncated =
     ([Key_from_public_bin ''pk'', Get_signature_length ''pk'',
       Is_valid_signature ''pk'' ''0123456789012345678901m02pka'' ''XX''],
      Inr (False, ''a''))"
  by (simp add: verify_signature_def startswith_def demo_defs demo_packets run_defs
        py_slice_def slice_index_def Let_def)

lemma demo_verify_accelerated:
  "verify_signature demo_imports (AuthObject ''LibNaCLPK:'') demo_packet_accelerated =
     ([Borrowed_verify_signature ''LibNaCLPK:'' demo_packet_accelerated], Inr (True, ''ab''))"
  by (simp add: verify_signature_def startswith_def demo_defs demo_packets run_defs)

lemma demo_unpack_header:
  "unpack_to_serializables (serializer (demo_overlay t)) [BinMemberAuthenticationPayload]
     (drop 23 demo_packet) = Inr ([AuthObject ''pk''], ''abOK'')"
  "unpack_to_serializables (serializer (demo_overlay t)) [BinMemberAuthenticationPayload]
     (drop 23 demo_packet_tampered) = Inr ([AuthObject ''pk''], ''abXX'')"
  "unpack_to_serializables (serializer (demo_overlay t)) [BinMemberAuthenticationPayload]
     (drop 23 demo_packet_truncated) = Inr ([AuthObject ''pk''], ''aXX'')"
  by (simp_all add: demo_defs demo_packets)

lemma demo_unpack_payloads:
  "ez_unpack_serializables (serializer (demo_overlay t)) [c1, c2] ''ab''
     = Inr [DataObject ''a'', DataObject ''b'']"
  "ez_unpack_serializables (serializer (demo_overlay t)) [c1, c2] ''a''
     = Inl (Raised ''PackError'')"
  by (simp_all add: demo_defs)


section \<open>Signature verification\<close>

lemma handler_calls_verify_signature: "handler_calls (fst (verify_signature G auth data)) = []"
  by (auto simp: verify_signature_def Let_def call_def and_then_def returns_def
        split: sum.splits prod.splits)

lemma payload_deserializations_verify_signature:
  "payload_deserializations (fst (verify_signature G auth data)) = []"
  by (auto simp: verify_signature_def Let_def call_def and_then_def returns_def
        split: sum.splits prod.splits)

lemma verify_signature_default_run:
  "\<not> startswith (public_key_bin G auth) ''LibNaCLPK:'' \<Longrightarrow>
     verify_signature G auth data =
       (case key_from_public_bin (default_eccrypto G) (public_key_bin G auth) of
          Inl e \<Rightarrow> ([Key_from_public_bin (public_key_bin G auth)], Inl e)
        | Inr public_key \<Rightarrow>
            (case get_signature_length (default_eccrypto G) public_key of
               Inl e \<Rightarrow>
                 ([Key_from_public_bin (public_key_bin G auth),
                   Get_signature_length public_key], Inl e)
             | Inr n \<Rightarrow>
                 ([Key_from_public_bin (public_key_bin G auth),
                   Get_signature_length public_key,
                   Is_valid_signature public_key (py_slice data None (Some (- n)))
                     (py_slice data (Some (- n)) None)],
                  case is_valid_signature (default_eccrypto G) public_key
                         (py_slice data None (Some (- n))) (py_slice data (Some (- n)) None) of
                    Inl e \<Rightarrow> Inl e
                  | Inr valid \<Rightarrow>
                      Inr (valid,
                           py_slice data (Some (23 + 2 + int (length (public_key_bin G auth))))
                             (Some (- n))))))"
  by (simp add: verify_signature_def Let_def call_def and_then_def returns_def
        split: sum.splits prod.splits)

text \<open>
  Claim C3. \<open>_verify_signature\<close> chooses the verifying backend by the marker alone.
  The key starts with \<open>LibNaCLPK:\<close> exactly when it is the marker followed by some
  bytes. With the marker the run is the single call of the bundler's verifier, whose
  result is returned. Without it the run is that of the default backend and of
  nothing else: \<open>key_from_public_bin\<close>, then \<open>get_signature_length\<close> of the key,
  then \<open>is_valid_signature\<close> of the key on \<open>data[:-n]\<close> and \<open>data[-n:]\<close>, each
  called if the one before it returned, and the verdict returned is the verdict of
  \<open>is_valid_signature\<close> (an exception of any of the three is the outcome). Hence
  the accelerated backend is called if and only if the marker is present, and the
  default backend if and only if it is absent: never both, never neither.
\<close>

theorem verify_signature_backend_selection:
  "(startswith (public_key_bin G auth) ''LibNaCLPK:''
      \<longleftrightarrow> (\<exists>rest. public_key_bin G auth = ''LibNaCLPK:'' @ rest))
   \<and> (startswith (public_key_bin G auth) ''LibNaCLPK:'' \<longrightarrow>
        verify_signature G auth data =
          ([Borrowed_verify_signature (public_key_bin G auth) data],
           borrowed_verify_signature (borrowed_bundler G) (public_key_bin G auth) data))
   \<and> (\<not> startswith (public_key_bin G auth) ''LibNaCLPK:'' \<longrightarrow>
        verify_signature G auth data =
          (case key_from_public_bin (default_eccrypto G) (public_key_bin G auth) of
             Inl e \<Rightarrow> ([Key_from_public_bin (public_key_bin G auth)], Inl e)
           | Inr public_key \<Rightarrow>
               (case get_signature_length (default_eccrypto G) public_key of
                  Inl e \<Rightarrow>
                    ([Key_from_public_bin (public_key_bin G auth),
                      Get_signature_length public_key], Inl e)
                | Inr n \<Rightarrow>
                    ([Key_from_public_bin (public_key_bin G auth),
                      Get_signature_length public_key,
                      Is_valid_signature public_key (py_slice data None (Some (- n)))
                        (py_slice data (Some (- n)) None)],
                     case is_valid_signature (default_eccrypto G) public_key
                            (py_slice data None (Some (- n))) (py_slice data (Some (- n)) None) of
                       Inl e \<Rightarrow> Inl e
                     | Inr valid \<Rightarrow>
                         Inr (valid,
                              py_slice data (Some (23 + 2 + int (length (public_key_bin G auth))))
                                (Some (- n)))))))
   \<and> (\<not> startswith (public_key_bin G auth) ''LibNaCLPK:'' \<longrightarrow>
        (\<forall>public_key n valid.
           key_from_public_bin (default_eccrypto G) (public_key_bin G auth) = Inr public_key \<longrightarrow>
           get_signature_length (default_eccrypto G) public_key = Inr n \<longrightarrow>
           is_valid_signature (default_eccrypto G) public_key
             (py_slice data None (Some (- n))) (py_slice data (Some (- n)) None) = Inr valid \<longrightarrow>
           fst (verify_signature G auth data) =
             [Key_from_public_bin (public_key_bin G auth), Get_signature_length public_key,
              Is_valid_signature public_key (py_slice data None (Some (- n)))
                (py_slice data (Some (- n)) None)]
           \<and> (\<exists>remainder. snd (verify_signature G auth data) = Inr (valid, remainder))))
   \<and> (\<not> startswith (public_key_bin G auth) ''LibNaCLPK:'' \<longrightarrow>
        fst (verify_signature G auth data) \<noteq> []
        \<and> hd (fst (verify_signature G auth data)) = Key_from_public_bin (public_key_bin G auth)
        \<and> list_all default_backend_event (fst (verify_signature G auth data)))
   \<and> (list_ex accelerated_backend_event (fst (verify_signature G auth data))
        \<longleftrightarrow> startswith (public_key_bin G auth) ''LibNaCLPK:'')
   \<and> (list_ex default_backend_event (fst (verify_signature G auth data))
        \<longleftrightarrow> \<not> startswith (public_key_bin G auth) ''LibNaCLPK:'')"
proof -
  have marker: "startswith (public_key_bin G auth) ''LibNaCLPK:''
                  \<longleftrightarrow> (\<exists>rest. public_key_bin G auth = ''LibNaCLPK:'' @ rest)"
    by (rule startswith_iff)
  have accelerated: "startswith (public_key_bin G auth) ''LibNaCLPK:'' \<Longrightarrow>
        verify_signature G auth data =
          ([Borrowed_verify_signature (public_key_bin G auth) data],
           borrowed_verify_signature (borrowed_bundler G) (public_key_bin G auth) data)"
    by (simp add: verify_signature_def call_def)
  note default = verify_signature_default_run [of G auth data]
  have verdict: "\<not> startswith (public_key_bin G auth) ''LibNaCLPK:'' \<Longrightarrow>
        key_from_public_bin (default_eccrypto G) (public_key_bin G auth) = Inr public_key \<Longrightarrow>
        get_signature_length (default_eccrypto G) public_key = Inr n \<Longrightarrow>
        is_valid_signature (default_eccrypto G) public_key
          (py_slice data None (Some (- n))) (py_slice data (Some (- n)) None) = Inr valid \<Longrightarrow>
        fst (verify_signature G auth data) =
          [Key_from_public_bin (public_key_bin G auth), Get_signature_length public_key,
           Is_valid_signature public_key (py_slice data None (Some (- n)))
             (py_slice data (Some (- n)) None)]
        \<and> (\<exists>remainder. snd (verify_signature G auth data) = Inr (valid, remainder))"
    for public_key n valid
    by (simp add: default)
  have events: "\<not> startswith (public_key_bin G auth) ''LibNaCLPK:'' \<Longrightarrow>
        fst (verify_signature G auth data) \<noteq> []
        \<and> hd (fst (verify_signature G auth data)) = Key_from_public_bin (public_key_bin G auth)
        \<and> list_all default_backend_event (fst (verify_signature G auth data))
        \<and> \<not> list_ex accelerated_backend_event (fst (verify_signature G auth data))
        \<and> list_ex default_backend_event (fst (verify_signature G auth data))"
    by (simp add: default split: sum.splits)
  have events': "startswith (public_key_bin G auth) ''LibNaCLPK:'' \<Longrightarrow>
        list_ex accelerated_backend_event (fst (verify_signature G auth data))
        \<and> \<not> list_ex default_backend_event (fst (verify_signature G auth data))"
    by (simp add: accelerated)
  from marker accelerated default verdict events events' show ?thesis
    by blast
qed

theorem verify_signature_backend_selection_witness:
  "startswith (public_key_bin demo_imports (AuthObject ''LibNaCLPK:'')) ''LibNaCLPK:''
   \<and> verify_signature demo_imports (AuthObject ''LibNaCLPK:'') demo_packet_accelerated =
       ([Borrowed_verify_signature ''LibNaCLPK:'' demo_packet_accelerated], Inr (True, ''ab''))
   \<and> \<not> list_ex default_backend_event
         (fst (verify_signature demo_imports (AuthObject ''LibNaCLPK:'') demo_packet_accelerated))
   \<and> \<not> startswith (public_key_bin demo_imports (AuthObject ''pk'')) ''LibNaCLPK:''
   \<and> verify_signature demo_imports (AuthObject ''pk'') demo_packet =
       ([Key_from_public_bin ''pk'', Get_signature_length ''pk'',
         Is_valid_signature ''pk'' ''0123456789012345678901m02pkab'' ''OK''],
        Inr (True, ''ab''))
   \<and> verify_signature demo_imports (AuthObject ''pk'') demo_packet_tampered =
       ([Key_from_public_bin ''pk'', Get_signature_length ''pk'',
         Is_valid_signature ''pk'' ''0123456789012345678901m02pkab'' ''XX''],
        Inr (False, ''ab''))
   \<and> \<not> list_ex accelerated_backend_event
       (fst (verify_signature demo_imports (AuthObject ''pk'') demo_packet_tampered))"
proof -
  have marked: "startswith (public_key_bin demo_imports (AuthObject ''LibNaCLPK:'')) ''LibNaCLPK:''"
    by (simp add: startswith_def demo_imports_def)
  have plain: "\<not> startswith (public_key_bin demo_imports (AuthObject ''pk'')) ''LibNaCLPK:''"
    by (simp add: startswith_def demo_imports_def)
  have pk: "public_key_bin demo_imports (AuthObject ''LibNaCLPK:'') = ''LibNaCLPK:''"
           "public_key_bin demo_imports (AuthObject ''pk'') = ''pk''"
    by (simp_all add: demo_imports_def)
  have bundler: "borrowed_verify_signature (borrowed_bundler demo_imports) ''LibNaCLPK:''
                   demo_packet_accelerated = Inr (True, ''ab'')"
    by (simp add: demo_defs demo_packets)
  have backend:
    "key_from_public_bin (default_eccrypto demo_imports) ''pk'' = Inr ''pk''"
    "get_signature_length (default_eccrypto demo_imports) k = Inr 2"
    "is_valid_signature (default_eccrypto demo_imports) k signed signature
       = Inr (signature = ''OK'')" for k signed signature
    by (simp_all add: demo_defs)
  have slices:
    "py_slice demo_packet None (Some (- 2)) = ''0123456789012345678901m02pkab''"
    "py_slice demo_packet (Some (- 2)) None = ''OK''"
    "py_slice demo_packet (Some 27) (Some (- 2)) = ''ab''"
    "py_slice demo_packet_tampered None (Some (- 2)) = ''0123456789012345678901m02pkab''"
    "py_slice demo_packet_tampered (Some (- 2)) None = ''XX''"
    "py_slice demo_packet_tampered (Some 27) (Some (- 2)) = ''ab''"
    by (simp_all add: py_slice_def slice_index_def Let_def demo_packets)
  from verify_signature_backend_selection
         [of demo_imports "AuthObject ''LibNaCLPK:''" demo_packet_accelerated] marked
  have "verify_signature demo_imports (AuthObject ''LibNaCLPK:'') demo_packet_accelerated =
          ([Borrowed_verify_signature (public_key_bin demo_imports (AuthObject ''LibNaCLPK:''))
              demo_packet_accelerated],
           borrowed_verify_signature (borrowed_bundler demo_imports)
             (public_key_bin demo_imports (AuthObject ''LibNaCLPK:'')) demo_packet_accelerated)
        \<and> \<not> list_ex default_backend_event
              (fst (verify_signature demo_imports (AuthObject ''LibNaCLPK:'')
                      demo_packet_accelerated))"
    by blast
  then have accelerated:
    "verify_signature demo_imports (AuthObject ''LibNaCLPK:'') demo_packet_accelerated =
       ([Borrowed_verify_signature ''LibNaCLPK:'' demo_packet_accelerated], Inr (True, ''ab''))
     \<and> \<not> list_ex default_backend_event
           (fst (verify_signature demo_imports (AuthObject ''LibNaCLPK:'') demo_packet_accelerated))"
    by (simp add: pk bundler)
  from verify_signature_backend_selection [of demo_imports "AuthObject ''pk''" demo_packet] plain
  have "verify_signature demo_imports (AuthObject ''pk'') demo_packet =
          (case key_from_public_bin (default_eccrypto demo_imports)
                  (public_key_bin demo_imports (AuthObject ''pk'')) of
             Inl e \<Rightarrow> ([Key_from_public_bin (public_key_bin demo_imports (AuthObject ''pk''))], Inl e)
           | Inr public_key \<Rightarrow>
               (case get_signature_length (default_eccrypto demo_imports) public_key of
                  Inl e \<Rightarrow>
                    ([Key_from_public_bin (public_key_bin demo_imports (AuthObject ''pk'')),
                      Get_signature_length public_key], Inl e)
                | Inr n \<Rightarrow>
                    ([Key_from_public_bin (public_key_bin demo_imports (AuthObject ''pk'')),
                      Get_signature_length public_key,
                      Is_valid_signature public_key (py_slice demo_packet None (Some (- n)))
                        (py_slice demo_packet (Some (- n)) None)],
                     case is_valid_signature (default_eccrypto demo_imports) public_key
                            (py_slice demo_packet None (Some (- n)))
                            (py_slice demo_packet (Some (- n)) None) of
                       Inl e \<Rightarrow> Inl e
                     | Inr valid \<Rightarrow>
                         Inr (valid,
                              py_slice demo_packet
                                (Some (23 + 2
                                   + int (length (public_key_bin demo_imports (AuthObject ''pk'')))))
                                (Some (- n))))))"
    by blast
  then have accepted:
    "verify_signature demo_imports (AuthObject ''pk'') demo_packet =
       ([Key_from_public_bin ''pk'', Get_signature_length ''pk'',
         Is_valid_signature ''pk'' ''0123456789012345678901m02pkab'' ''OK''],
        Inr (True, ''ab''))"
    by (simp add: pk backend slices)
  from verify_signature_backend_selection
         [of demo_imports "AuthObject ''pk''" demo_packet_tampered] plain
  have "verify_signature demo_imports (AuthObject ''pk'') demo_packet_tampered =
          (case key_from_public_bin (default_eccrypto demo_imports)
                  (public_key_bin demo_imports (AuthObject ''pk'')) of
             Inl e \<Rightarrow> ([Key_from_public_bin (public_key_bin demo_imports (AuthObject ''pk''))], Inl e)
           | Inr public_key \<Rightarrow>
               (case get_signature_length (default_eccrypto demo_imports) public_key of
                  Inl e \<Rightarrow>
                    ([Key_from_public_bin (public_key_bin demo_imports (AuthObject ''pk'')),
                      Get_signature_length public_key], Inl e)
                | Inr n \<Rightarrow>
                    ([Key_from_public_bin (public_key_bin demo_imports (AuthObject ''pk'')),
                      Get_signature_length public_key,
                      Is_valid_signature public_key
                        (py_slice demo_packet_tampered None (Some (- n)))
                        (py_slice demo_packet_tampered (Some (- n)) None)],
                     case is_valid_signature (default_eccrypto demo_imports) public_key
                            (py_slice demo_packet_tampered None (Some (- n)))
                            (py_slice demo_packet_tampered (Some (- n)) None) of
                       Inl e \<Rightarrow> Inl e
                     | Inr valid \<Rightarrow>
                         Inr (valid,
                              py_slice demo_packet_tampered
                                (Some (23 + 2
                                   + int (length (public_key_bin demo_imports (AuthObject ''pk'')))))
                                (Some (- n))))))
        \<and> \<not> list_ex accelerated_backend_event
              (fst (verify_signature demo_imports (AuthObject ''pk'') demo_packet_tampered))"
    by blast
  then have rejected:
    "verify_signature demo_imports (AuthObject ''pk'') demo_packet_tampered =
       ([Key_from_public_bin ''pk'', Get_signature_length ''pk'',
         Is_valid_signature ''pk'' ''0123456789012345678901m02pkab'' ''XX''],
        Inr (False, ''ab''))
     \<and> \<not> list_ex accelerated_backend_event
           (fst (verify_signature demo_imports (AuthObject ''pk'') demo_packet_tampered))"
    by (simp add: pk backend slices)
  from marked plain accelerated accepted rejected show ?thesis
    by blast
qed

text \<open>
  Claim C4. In the default-backend branch, for a key that the backend accepts and that
  has the signature length \<open>n\<close> (a positive number of bytes), \<open>_verify_signature\<close>
  returns the outcome of the check together with the remainder, and the remainder is
  exactly the byte range of \<open>data\<close> from offset \<open>23 + 2 + len(public_key_bin)\<close> up to
  \<open>n\<close> bytes before the end of \<open>data\<close>. The check itself is made on the bytes before
  that end against the last \<open>n\<close> bytes.
\<close>

theorem verify_signature_default_remainder:
  assumes "\<not> startswith (public_key_bin G auth) ''LibNaCLPK:''"
    and "key_from_public_bin (default_eccrypto G) (public_key_bin G auth) = Inr public_key"
    and "get_signature_length (default_eccrypto G) public_key = Inr n"
    and "0 < n"
    and "is_valid_signature (default_eccrypto G) public_key
           (take (length data - nat n) data) (drop (length data - nat n) data) = Inr valid"
  shows "snd (verify_signature G auth data) =
           Inr (valid,
                bytes_between data (23 + 2 + length (public_key_bin G auth))
                                   (length data - nat n))"
proof -
  have rem: "py_slice data (Some (25 + int (length (public_key_bin G auth)))) (Some (- n)) =
          bytes_between data (25 + length (public_key_bin G auth)) (length data - nat n)"
    using py_slice_from_to_end [of "25 + int (length (public_key_bin G auth))" n data] assms(4)
    by (simp add: nat_add_distrib)
  show ?thesis
    using assms
    by (simp add: verify_signature_def Let_def and_then_call_Inr returns_def
          py_slice_last py_slice_but_last rem)
qed

theorem verify_signature_default_remainder_witness:
  "\<not> startswith (public_key_bin demo_imports (AuthObject ''pk'')) ''LibNaCLPK:''
   \<and> key_from_public_bin (default_eccrypto demo_imports)
       (public_key_bin demo_imports (AuthObject ''pk'')) = Inr ''pk''
   \<and> get_signature_length (default_eccrypto demo_imports) ''pk'' = Inr 2
   \<and> snd (verify_signature demo_imports (AuthObject ''pk'') demo_packet) =
       Inr (True, bytes_between demo_packet (23 + 2 + length ''pk'') (length demo_packet - 2))
   \<and> bytes_between demo_packet (23 + 2 + length ''pk'') (length demo_packet - 2) = ''ab''"
proof -
  have plain: "\<not> startswith (public_key_bin demo_imports (AuthObject ''pk'')) ''LibNaCLPK:''"
    by (simp add: startswith_def demo_imports_def)
  have key: "key_from_public_bin (default_eccrypto demo_imports)
               (public_key_bin demo_imports (AuthObject ''pk'')) = Inr ''pk''"
    by (simp add: demo_defs)
  have len: "get_signature_length (default_eccrypto demo_imports) ''pk'' = Inr 2"
    by (simp add: demo_defs)
  have valid: "is_valid_signature (default_eccrypto demo_imports) ''pk''
                 (take (length demo_packet - nat 2) demo_packet)
                 (drop (length demo_packet - nat 2) demo_packet) = Inr True"
    by (simp add: demo_defs demo_packets)
  have range: "bytes_between demo_packet (23 + 2 + length ''pk'') (length demo_packet - 2) = ''ab''"
    by (simp add: bytes_between_def demo_packets)
  from verify_signature_default_remainder [OF plain key len _ valid]
  have "snd (verify_signature demo_imports (AuthObject ''pk'') demo_packet) =
          Inr (True, bytes_between demo_packet (23 + 2 + length ''pk'') (length demo_packet - 2))"
    by (simp add: demo_imports_def)
  with plain key len range show ?thesis
    by blast
qed


section \<open>The authenticated wrappers and \_ez\_unpack\_auth\<close>

lemma unpack_auth_Inr:
  "unpack_to_serializables (serializer self) [BinMemberAuthenticationPayload] (drop 23 data)
     = Inr ([auth], remainder0)
   \<Longrightarrow> unpack_auth self data =
         ([Unpack_to_serializables [BinMemberAuthenticationPayload] (drop 23 data)],
          Inr (auth, remainder0))"
  by (simp add: unpack_auth_def py_slice_from and_then_call_Inr returns_def)

text \<open>
  The three functions once the auth header is unpacked and the signature check has
  returned: the payloads are deserialized next, and only then is the outcome of the
  check looked at.
\<close>

lemma lazy_wrapper_after_verify:
  assumes "unpack_to_serializables (serializer self) [BinMemberAuthenticationPayload] (drop 23 data)
             = Inr ([auth], remainder0)"
    and "verify_signature G auth data = (vtr, Inr (signature_valid, remainder))"
  shows "lazy_wrapper G payloads func self source_address data =
           (case ez_unpack_serializables (serializer self) payloads remainder of
              Inl e \<Rightarrow>
                (Unpack_to_serializables [BinMemberAuthenticationPayload] (drop 23 data) # vtr
                   @ [Ez_unpack_serializables payloads remainder], Inl e)
            | Inr unpacked \<Rightarrow>
                if \<not> signature_valid then
                  (Unpack_to_serializables [BinMemberAuthenticationPayload] (drop 23 data) # vtr
                     @ [Ez_unpack_serializables payloads remainder], Inl PacketDecodingError)
                else
                  (Unpack_to_serializables [BinMemberAuthenticationPayload] (drop 23 data) # vtr
                     @ [Ez_unpack_serializables payloads remainder,
                        Handler (Peer (public_key_bin G auth) source_address) (map Payload unpacked)],
                   func self (Peer (public_key_bin G auth) source_address) (map Payload unpacked)))"
  by (simp add: lazy_wrapper_def unpack_auth_Inr [OF assms(1)] assms(2) and_then_Inr and_then_Inl
        and_then_call_Inr and_then_call_Inl raises_def call_def Let_def split: sum.splits)

lemma lazy_wrapper_wd_after_verify:
  assumes "unpack_to_serializables (serializer self) [BinMemberAuthenticationPayload] (drop 23 data)
             = Inr ([auth], remainder0)"
    and "verify_signature G auth data = (vtr, Inr (signature_valid, remainder))"
  shows "lazy_wrapper_wd G payloads func self source_address data =
           (case ez_unpack_serializables (serializer self) payloads remainder of
              Inl e \<Rightarrow>
                (Unpack_to_serializables [BinMemberAuthenticationPayload] (drop 23 data) # vtr
                   @ [Ez_unpack_serializables payloads remainder], Inl e)
            | Inr unpacked \<Rightarrow>
                if \<not> signature_valid then
                  (Unpack_to_serializables [BinMemberAuthenticationPayload] (drop 23 data) # vtr
                     @ [Ez_unpack_serializables payloads remainder], Inl PacketDecodingError)
                else
                  (Unpack_to_serializables [BinMemberAuthenticationPayload] (drop 23 data) # vtr
                     @ [Ez_unpack_serializables payloads remainder,
                        Handler (Peer (public_key_bin G auth) source_address)
                          (map Payload unpacked @ [RawData data])],
                   func self (Peer (public_key_bin G auth) source_address)
                     (map Payload unpacked @ [RawData data])))"
  by (simp add: lazy_wrapper_wd_def unpack_auth_Inr [OF assms(1)] assms(2) and_then_Inr and_then_Inl
        and_then_call_Inr and_then_call_Inl raises_def call_def Let_def split: sum.splits)

lemma ez_unpack_auth_after_verify:
  assumes "unpack_to_serializables (serializer self) [BinMemberAuthenticationPayload] (drop 23 data)
             = Inr ([auth], remainder0)"
    and "verify_signature G auth data = (vtr, Inr (signature_valid, remainder))"
  shows "ez_unpack_auth G self payload_class data =
           (Unpack_to_serializables [BinMemberAuthenticationPayload] (drop 23 data) # vtr
              @ [Ez_unpack_serializables [GlobalTimeDistributionPayload, payload_class] remainder],
            case ez_unpack_serializables (serializer self)
                   [GlobalTimeDistributionPayload, payload_class] remainder of
              Inl e \<Rightarrow> Inl e
            | Inr unpacked \<Rightarrow>
                (case unpacked of
                   [dist, payload] \<Rightarrow>
                     if \<not> signature_valid then Inl PacketDecodingError
                     else Inr (auth, dist, payload)
                 | _ \<Rightarrow> Inl ValueError))"
  by (simp add: ez_unpack_auth_def unpack_auth_Inr [OF assms(1)] assms(2) and_then_Inr and_then_Inl
        and_then_call_Inr and_then_call_Inl raises_def returns_def call_def Let_def
        split: sum.splits list.splits)

lemma verify_signature_run:
  "snd (verify_signature G auth data) = Inr (signature_valid, remainder)
   \<Longrightarrow> verify_signature G auth data =
         (fst (verify_signature G auth data), Inr (signature_valid, remainder))"
  by (metis prod.collapse)

text \<open>
  Claim C1, as the code has it. Let the auth header unpack and let the signature check
  return \<open>(signature_valid, remainder)\<close>. If the signature is invalid, neither
  wrapper invokes the handler; the wrapper raises \<open>PacketDecodingError\<close> when the
  payloads deserialize from the remainder, and the serializer's own error when they do
  not. If the signature is valid and the payloads deserialize, the handler is invoked
  exactly once, with the peer built from \<open>auth.public_key_bin\<close> and
  \<open>source_address\<close> followed by the decoded payloads in the serializer's order
  (\<open>lazy_wrapper_wd\<close>: and by the original bytes as the last argument), and the
  handler's result is the wrapper's result.
\<close>

theorem lazy_wrapper_dispatch:
  assumes "unpack_to_serializables (serializer self) [BinMemberAuthenticationPayload] (drop 23 data)
             = Inr ([auth], remainder0)"
    and "snd (verify_signature G auth data) = Inr (signature_valid, remainder)"
  shows
    "(\<not> signature_valid \<longrightarrow>
        handler_calls (fst (lazy_wrapper G payloads func self source_address data)) = []
      \<and> handler_calls (fst (lazy_wrapper_wd G payloads func self source_address data)) = []
      \<and> (\<forall>unpacked. ez_unpack_serializables (serializer self) payloads remainder = Inr unpacked \<longrightarrow>
            snd (lazy_wrapper G payloads func self source_address data) = Inl PacketDecodingError
          \<and> snd (lazy_wrapper_wd G payloads func self source_address data) = Inl PacketDecodingError)
      \<and> (\<forall>e. ez_unpack_serializables (serializer self) payloads remainder = Inl e \<longrightarrow>
            snd (lazy_wrapper G payloads func self source_address data) = Inl e
          \<and> snd (lazy_wrapper_wd G payloads func self source_address data) = Inl e))
   \<and> (signature_valid \<longrightarrow>
        (\<forall>unpacked. ez_unpack_serializables (serializer self) payloads remainder = Inr unpacked \<longrightarrow>
            handler_calls (fst (lazy_wrapper G payloads func self source_address data)) =
              [(Peer (public_key_bin G auth) source_address, map Payload unpacked)]
          \<and> snd (lazy_wrapper G payloads func self source_address data) =
              func self (Peer (public_key_bin G auth) source_address) (map Payload unpacked)
          \<and> handler_calls (fst (lazy_wrapper_wd G payloads func self source_address data)) =
              [(Peer (public_key_bin G auth) source_address, map Payload unpacked @ [RawData data])]
          \<and> snd (lazy_wrapper_wd G payloads func self source_address data) =
              func self (Peer (public_key_bin G auth) source_address)
                (map Payload unpacked @ [RawData data])))"
proof -
  note verified = verify_signature_run [OF assms(2)]
  have quiet: "handler_calls (fst (verify_signature G auth data)) = []"
    by (rule handler_calls_verify_signature)
  show ?thesis
    by (auto simp: lazy_wrapper_after_verify [OF assms(1) verified]
          lazy_wrapper_wd_after_verify [OF assms(1) verified]
          handler_calls_append quiet split: sum.splits)
qed

text \<open>
  Claim C1 as stated fails: on a packet whose signature is corrupted and whose payload
  region is too short for the two declared payloads, the signature check returns
  false, the serializer raises while deserializing, and that error, not
  \<open>PacketDecodingError\<close>, is what both wrappers raise.
\<close>

theorem lazy_wrapper_dispatch_counterexample:
  "snd (verify_signature demo_imports (AuthObject ''pk'') demo_packet_truncated)
     = Inr (False, ''a'')
   \<and> snd (lazy_wrapper demo_imports [PayloadClass ''A'', PayloadClass ''B''] demo_handler
            (demo_overlay LibNaCLSK) demo_address demo_packet_truncated)
       = Inl (Raised ''PackError'')
   \<and> snd (lazy_wrapper_wd demo_imports [PayloadClass ''A'', PayloadClass ''B''] demo_handler
            (demo_overlay LibNaCLSK) demo_address demo_packet_truncated)
       = Inl (Raised ''PackError'')
   \<and> snd (lazy_wrapper demo_imports [PayloadClass ''A'', PayloadClass ''B''] demo_handler
            (demo_overlay LibNaCLSK) demo_address demo_packet_truncated)
       \<noteq> Inl PacketDecodingError"
  by (simp add: lazy_wrapper_after_verify [OF demo_unpack_header(3) demo_verify_truncated]
        lazy_wrapper_wd_after_verify [OF demo_unpack_header(3) demo_verify_truncated]
        demo_verify_truncated demo_unpack_payloads)

theorem lazy_wrapper_dispatch_witness:
  "handler_calls (fst (lazy_wrapper demo_imports [PayloadClass ''A'', PayloadClass ''B'']
      demo_handler (demo_overlay LibNaCLSK) demo_address demo_packet_tampered)) = []
   \<and> snd (lazy_wrapper demo_imports [PayloadClass ''A'', PayloadClass ''B'']
      demo_handler (demo_overlay LibNaCLSK) demo_address demo_packet_tampered)
       = Inl PacketDecodingError
   \<and> handler_calls (fst (lazy_wrapper_wd demo_imports [PayloadClass ''A'', PayloadClass ''B'']
      demo_handler (demo_overlay LibNaCLSK) demo_address demo_packet_truncated)) = []
   \<and> snd (lazy_wrapper_wd demo_imports [PayloadClass ''A'', PayloadClass ''B'']
      demo_handler (demo_overlay LibNaCLSK) demo_address demo_packet_truncated)
       = Inl (Raised ''PackError'')
   \<and> handler_calls (fst (lazy_wrapper demo_imports [PayloadClass ''A'', PayloadClass ''B'']
      demo_handler (demo_overlay LibNaCLSK) demo_address demo_packet))
       = [(Peer ''pk'' demo_address, [Payload (DataObject ''a''), Payload (DataObject ''b'')])]
   \<and> snd (lazy_wrapper demo_imports [PayloadClass ''A'', PayloadClass ''B'']
      demo_handler (demo_overlay LibNaCLSK) demo_address demo_packet) = Inr 2
   \<and> handler_calls (fst (lazy_wrapper_wd demo_imports [PayloadClass ''A'', PayloadClass ''B'']
      demo_handler (demo_overlay LibNaCLSK) demo_address demo_packet))
       = [(Peer ''pk'' demo_address,
           [Payload (DataObject ''a''), Payload (DataObject ''b''), RawData demo_packet])]
   \<and> snd (lazy_wrapper_wd demo_imports [PayloadClass ''A'', PayloadClass ''B'']
      demo_handler (demo_overlay LibNaCLSK) demo_address demo_packet) = Inr 3"
proof -
  have checked:
    "snd (verify_signature demo_imports (AuthObject ''pk'') demo_packet) = Inr (True, ''ab'')"
    "snd (verify_signature demo_imports (AuthObject ''pk'') demo_packet_tampered)
       = Inr (False, ''ab'')"
    "snd (verify_signature demo_imports (AuthObject ''pk'') demo_packet_truncated)
       = Inr (False, ''a'')"
    by (simp_all add: demo_verify_default demo_verify_tampered demo_verify_truncated)
  have pk: "public_key_bin demo_imports (AuthObject ''pk'') = ''pk''"
    by (simp add: demo_imports_def)
  have handled: "demo_handler self p args = Inr (length args)" for self p args
    by (simp add: demo_handler_def)
  from lazy_wrapper_dispatch
         [where self = "demo_overlay LibNaCLSK" and func = demo_handler
            and payloads = "[PayloadClass ''A'', PayloadClass ''B'']"
            and source_address = demo_address,
          OF demo_unpack_header(2) checked(2)]
  have tampered:
    "handler_calls (fst (lazy_wrapper demo_imports [PayloadClass ''A'', PayloadClass ''B'']
        demo_handler (demo_overlay LibNaCLSK) demo_address demo_packet_tampered)) = []
     \<and> snd (lazy_wrapper demo_imports [PayloadClass ''A'', PayloadClass ''B'']
        demo_handler (demo_overlay LibNaCLSK) demo_address demo_packet_tampered)
         = Inl PacketDecodingError"
    by (simp add: demo_unpack_payloads)
  from lazy_wrapper_dispatch
         [where self = "demo_overlay LibNaCLSK" and func = demo_handler
            and payloads = "[PayloadClass ''A'', PayloadClass ''B'']"
            and source_address = demo_address,
          OF demo_unpack_header(3) checked(3)]
  have truncated:
    "handler_calls (fst (lazy_wrapper_wd demo_imports [PayloadClass ''A'', PayloadClass ''B'']
        demo_handler (demo_overlay LibNaCLSK) demo_address demo_packet_truncated)) = []
     \<and> snd (lazy_wrapper_wd demo_imports [PayloadClass ''A'', PayloadClass ''B'']
        demo_handler (demo_overlay LibNaCLSK) demo_address demo_packet_truncated)
         = Inl (Raised ''PackError'')"
    by (simp add: demo_unpack_payloads)
  from lazy_wrapper_dispatch
         [where self = "demo_overlay LibNaCLSK" and func = demo_handler
            and payloads = "[PayloadClass ''A'', PayloadClass ''B'']"
            and source_address = demo_address,
          OF demo_unpack_header(1) checked(1)]
  have valid:
    "handler_calls (fst (lazy_wrapper demo_imports [PayloadClass ''A'', PayloadClass ''B'']
        demo_handler (demo_overlay LibNaCLSK) demo_address demo_packet))
         = [(Peer ''pk'' demo_address, [Payload (DataObject ''a''), Payload (DataObject ''b'')])]
     \<and> snd (lazy_wrapper demo_imports [PayloadClass ''A'', PayloadClass ''B'']
        demo_handler (demo_overlay LibNaCLSK) demo_address demo_packet) = Inr 2
     \<and> handler_calls (fst (lazy_wrapper_wd demo_imports [PayloadClass ''A'', PayloadClass ''B'']
        demo_handler (demo_overlay LibNaCLSK) demo_address demo_packet))
         = [(Peer ''pk'' demo_address,
             [Payload (DataObject ''a''), Payload (DataObject ''b''), RawData demo_packet])]
     \<and> snd (lazy_wrapper_wd demo_imports [PayloadClass ''A'', PayloadClass ''B'']
        demo_handler (demo_overlay LibNaCLSK) demo_address demo_packet) = Inr 3"
    by (simp add: demo_unpack_payloads pk handled)
  from tampered truncated valid show ?thesis
    by blast
qed


lemma verify_signature_quiet:
  "verify_signature G auth data = (vtr, r)
   \<Longrightarrow> handler_calls vtr = [] \<and> payload_deserializations vtr = []"
  using handler_calls_verify_signature [of G auth data]
        payload_deserializations_verify_signature [of G auth data]
  by simp

text \<open>
  Whatever the packet, the handler is reached, and payloads are deserialized, only
  on the path on which the auth header unpacked and the signature check returned.
\<close>

lemma lazy_wrapper_delivery:
  "handler_calls (fst (lazy_wrapper G payloads func self source_address data)) \<noteq> []
   \<Longrightarrow> \<exists>auth remainder0 remainder.
         unpack_to_serializables (serializer self) [BinMemberAuthenticationPayload] (drop 23 data)
           = Inr ([auth], remainder0)
         \<and> snd (verify_signature G auth data) = Inr (True, remainder)"
  by (auto simp: lazy_wrapper_def unpack_auth_def py_slice_from and_then_def call_def returns_def
        raises_def Let_def handler_calls_append
        dest: verify_signature_quiet split: sum.splits prod.splits list.splits if_splits)

lemma lazy_wrapper_deserialization:
  "payload_deserializations (fst (lazy_wrapper G payloads func self source_address data)) \<noteq> []
   \<Longrightarrow> \<exists>auth remainder0 signature_valid remainder.
         unpack_to_serializables (serializer self) [BinMemberAuthenticationPayload] (drop 23 data)
           = Inr ([auth], remainder0)
         \<and> snd (verify_signature G auth data) = Inr (signature_valid, remainder)"
  by (auto simp: lazy_wrapper_def unpack_auth_def py_slice_from and_then_def call_def returns_def
        raises_def Let_def payload_deserializations_append
        dest: verify_signature_quiet split: sum.splits prod.splits list.splits if_splits)

lemma ez_unpack_auth_delivery:
  "snd (ez_unpack_auth G self payload_class data) = Inr (auth, dist, payload)
   \<Longrightarrow> \<exists>remainder0 remainder.
         unpack_to_serializables (serializer self) [BinMemberAuthenticationPayload] (drop 23 data)
           = Inr ([auth], remainder0)
         \<and> snd (verify_signature G auth data) = Inr (True, remainder)"
  by (auto simp: ez_unpack_auth_def unpack_auth_def py_slice_from and_then_def call_def
        returns_def raises_def Let_def
        split: sum.splits prod.splits list.splits if_splits)

lemma ez_unpack_auth_deserialization:
  "payload_deserializations (fst (ez_unpack_auth G self payload_class data)) \<noteq> []
   \<Longrightarrow> \<exists>auth remainder0 signature_valid remainder.
         unpack_to_serializables (serializer self) [BinMemberAuthenticationPayload] (drop 23 data)
           = Inr ([auth], remainder0)
         \<and> snd (verify_signature G auth data) = Inr (signature_valid, remainder)"
  by (auto simp: ez_unpack_auth_def unpack_auth_def py_slice_from and_then_def call_def
        returns_def raises_def Let_def payload_deserializations_append
        dest: verify_signature_quiet split: sum.splits prod.splits list.splits if_splits)

lemma authenticated_unpack_after_verify:
  assumes "unpack_to_serializables (serializer self) [BinMemberAuthenticationPayload] (drop 23 data)
             = Inr ([auth], remainder0)"
    and "snd (verify_signature G auth data) = Inr (signature_valid, remainder)"
  shows
    "payload_deserializations (fst (lazy_wrapper G payloads func self source_address data))
       = [(payloads, remainder)]
     \<and> payload_deserializations (fst (ez_unpack_auth G self payload_class data))
       = [([GlobalTimeDistributionPayload, payload_class], remainder)]
     \<and> (\<not> signature_valid \<longrightarrow>
          fst (lazy_wrapper G payloads func self source_address data)
            = Unpack_to_serializables [BinMemberAuthenticationPayload] (drop 23 data)
              # fst (verify_signature G auth data) @ [Ez_unpack_serializables payloads remainder]
        \<and> (\<exists>e. snd (lazy_wrapper G payloads func self source_address data) = Inl e)
        \<and> fst (ez_unpack_auth G self payload_class data)
            = Unpack_to_serializables [BinMemberAuthenticationPayload] (drop 23 data)
              # fst (verify_signature G auth data)
              @ [Ez_unpack_serializables [GlobalTimeDistributionPayload, payload_class] remainder]
        \<and> (\<exists>e. snd (ez_unpack_auth G self payload_class data) = Inl e))"
proof -
  note verified = verify_signature_run [OF assms(2)]
  have quiet: "handler_calls (fst (verify_signature G auth data)) = []"
    "payload_deserializations (fst (verify_signature G auth data)) = []"
    by (rule handler_calls_verify_signature, rule payload_deserializations_verify_signature)
  have wrapper:
    "payload_deserializations (fst (lazy_wrapper G payloads func self source_address data))
       = [(payloads, remainder)]
     \<and> (\<not> signature_valid \<longrightarrow>
          fst (lazy_wrapper G payloads func self source_address data)
            = Unpack_to_serializables [BinMemberAuthenticationPayload] (drop 23 data)
              # fst (verify_signature G auth data) @ [Ez_unpack_serializables payloads remainder]
        \<and> (\<exists>e. snd (lazy_wrapper G payloads func self source_address data) = Inl e))"
    by (auto simp: lazy_wrapper_after_verify [OF assms(1) verified]
          payload_deserializations_append quiet split: sum.splits)
  have unpack:
    "payload_deserializations (fst (ez_unpack_auth G self payload_class data))
       = [([GlobalTimeDistributionPayload, payload_class], remainder)]
     \<and> fst (ez_unpack_auth G self payload_class data)
         = Unpack_to_serializables [BinMemberAuthenticationPayload] (drop 23 data)
           # fst (verify_signature G auth data)
           @ [Ez_unpack_serializables [GlobalTimeDistributionPayload, payload_class] remainder]
     \<and> (\<not> signature_valid \<longrightarrow> (\<exists>e. snd (ez_unpack_auth G self payload_class data) = Inl e))"
    by (auto simp: ez_unpack_auth_after_verify [OF assms(1) verified]
          payload_deserializations_append quiet split: sum.splits list.splits)
  from wrapper unpack show ?thesis
    by blast
qed

text \<open>
  Claim C2, as the code has it. In \<open>lazy_wrapper\<close> and \<open>_ez_unpack_auth\<close> the
  payloads are deserialized from the remainder after the signature has been checked
  but before the outcome of the check is looked at, whether the signature is valid or
  not. Whenever the auth header unpacks and the signature check returns a verdict,
  deserialization happens exactly once, on the remainder; with the verdict false, the
  calls made are the unpacking of the auth header, the calls of the signature check
  and the deserialization of the payloads, in this order, and then an error is raised.
  For every packet whatsoever, payloads are deserialized only if the auth header
  unpacked and the signature check returned, and payloads are delivered only if the
  signature check has succeeded: if the handler is invoked, or if
  \<open>_ez_unpack_auth\<close> returns, then the auth header unpacked and
  \<open>_verify_signature\<close> returned true for it. A packet whose header does not unpack,
  or whose signature check raises, delivers nothing.
\<close>

theorem authenticated_unpack_order:
  "(\<forall>auth remainder0 signature_valid remainder.
      unpack_to_serializables (serializer self) [BinMemberAuthenticationPayload] (drop 23 data)
        = Inr ([auth], remainder0) \<longrightarrow>
      snd (verify_signature G auth data) = Inr (signature_valid, remainder) \<longrightarrow>
        payload_deserializations (fst (lazy_wrapper G payloads func self source_address data))
          = [(payloads, remainder)]
      \<and> payload_deserializations (fst (ez_unpack_auth G self payload_class data))
          = [([GlobalTimeDistributionPayload, payload_class], remainder)]
      \<and> (\<not> signature_valid \<longrightarrow>
           fst (lazy_wrapper G payloads func self source_address data)
             = Unpack_to_serializables [BinMemberAuthenticationPayload] (drop 23 data)
               # fst (verify_signature G auth data) @ [Ez_unpack_serializables payloads remainder]
         \<and> (\<exists>e. snd (lazy_wrapper G payloads func self source_address data) = Inl e)
         \<and> fst (ez_unpack_auth G self payload_class data)
             = Unpack_to_serializables [BinMemberAuthenticationPayload] (drop 23 data)
               # fst (verify_signature G auth data)
               @ [Ez_unpack_serializables [GlobalTimeDistributionPayload, payload_class] remainder]
         \<and> (\<exists>e. snd (ez_unpack_auth G self payload_class data) = Inl e)))
   \<and> (handler_calls (fst (lazy_wrapper G payloads func self source_address data)) \<noteq> [] \<longrightarrow>
        (\<exists>auth remainder0 remainder.
           unpack_to_serializables (serializer self) [BinMemberAuthenticationPayload] (drop 23 data)
             = Inr ([auth], remainder0)
         \<and> snd (verify_signature G auth data) = Inr (True, remainder)))
   \<and> (\<forall>auth dist payload.
        snd (ez_unpack_auth G self payload_class data) = Inr (auth, dist, payload) \<longrightarrow>
        (\<exists>remainder0 remainder.
           unpack_to_serializables (serializer self) [BinMemberAuthenticationPayload] (drop 23 data)
             = Inr ([auth], remainder0)
         \<and> snd (verify_signature G auth data) = Inr (True, remainder)))
   \<and> (payload_deserializations (fst (lazy_wrapper G payloads func self source_address data)) \<noteq> []
        \<or> payload_deserializations (fst (ez_unpack_auth G self payload_class data)) \<noteq> [] \<longrightarrow>
        (\<exists>auth remainder0 signature_valid remainder.
           unpack_to_serializables (serializer self) [BinMemberAuthenticationPayload] (drop 23 data)
             = Inr ([auth], remainder0)
         \<and> snd (verify_signature G auth data) = Inr (signature_valid, remainder)))"
proof -
  have verdict: "\<forall>auth remainder0 signature_valid remainder.
      unpack_to_serializables (serializer self) [BinMemberAuthenticationPayload] (drop 23 data)
        = Inr ([auth], remainder0) \<longrightarrow>
      snd (verify_signature G auth data) = Inr (signature_valid, remainder) \<longrightarrow>
        payload_deserializations (fst (lazy_wrapper G payloads func self source_address data))
          = [(payloads, remainder)]
      \<and> payload_deserializations (fst (ez_unpack_auth G self payload_class data))
          = [([GlobalTimeDistributionPayload, payload_class], remainder)]
      \<and> (\<not> signature_valid \<longrightarrow>
           fst (lazy_wrapper G payloads func self source_address data)
             = Unpack_to_serializables [BinMemberAuthenticationPayload] (drop 23 data)
               # fst (verify_signature G auth data) @ [Ez_unpack_serializables payloads remainder]
         \<and> (\<exists>e. snd (lazy_wrapper G payloads func self source_address data) = Inl e)
         \<and> fst (ez_unpack_auth G self payload_class data)
             = Unpack_to_serializables [BinMemberAuthenticationPayload] (drop 23 data)
               # fst (verify_signature G auth data)
               @ [Ez_unpack_serializables [GlobalTimeDistributionPayload, payload_class] remainder]
         \<and> (\<exists>e. snd (ez_unpack_auth G self payload_class data) = Inl e))"
    using authenticated_unpack_after_verify [of self data _ _ G] by blast
  have handled:
    "handler_calls (fst (lazy_wrapper G payloads func self source_address data)) \<noteq> [] \<longrightarrow>
        (\<exists>auth remainder0 remainder.
           unpack_to_serializables (serializer self) [BinMemberAuthenticationPayload] (drop 23 data)
             = Inr ([auth], remainder0)
         \<and> snd (verify_signature G auth data) = Inr (True, remainder))"
    using lazy_wrapper_delivery [of G payloads func self source_address data] by blast
  have returned:
    "\<forall>auth dist payload.
        snd (ez_unpack_auth G self payload_class data) = Inr (auth, dist, payload) \<longrightarrow>
        (\<exists>remainder0 remainder.
           unpack_to_serializables (serializer self) [BinMemberAuthenticationPayload] (drop 23 data)
             = Inr ([auth], remainder0)
         \<and> snd (verify_signature G auth data) = Inr (True, remainder))"
    using ez_unpack_auth_delivery [of G self payload_class data] by blast
  have deserialized:
    "payload_deserializations (fst (lazy_wrapper G payloads func self source_address data)) \<noteq> []
        \<or> payload_deserializations (fst (ez_unpack_auth G self payload_class data)) \<noteq> [] \<longrightarrow>
        (\<exists>auth remainder0 signature_valid remainder.
           unpack_to_serializables (serializer self) [BinMemberAuthenticationPayload] (drop 23 data)
             = Inr ([auth], remainder0)
         \<and> snd (verify_signature G auth data) = Inr (signature_valid, remainder))"
    using lazy_wrapper_deserialization [of G payloads func self source_address data]
          ez_unpack_auth_deserialization [of G self payload_class data]
    by blast
  from verdict handled returned deserialized show ?thesis
    by (intro conjI)
qed

text \<open>
  Claim C2 as stated fails: on a packet whose signature is corrupted but whose payload
  region is intact, the signature check returns false and both functions still
  deserialize the payloads from the remainder before they raise
  \<open>PacketDecodingError\<close>.
\<close>

theorem authenticated_unpack_order_counterexample:
  "snd (verify_signature demo_imports (AuthObject ''pk'') demo_packet_tampered)
     = Inr (False, ''ab'')
   \<and> lazy_wrapper demo_imports [PayloadClass ''A'', PayloadClass ''B''] demo_handler
        (demo_overlay LibNaCLSK) demo_address demo_packet_tampered
       = ([Unpack_to_serializables [BinMemberAuthenticationPayload] ''02pkabXX'',
           Key_from_public_bin ''pk'', Get_signature_length ''pk'',
           Is_valid_signature ''pk'' ''0123456789012345678901m02pkab'' ''XX'',
           Ez_unpack_serializables [PayloadClass ''A'', PayloadClass ''B''] ''ab''],
          Inl PacketDecodingError)
   \<and> payload_deserializations
        (fst (lazy_wrapper demo_imports [PayloadClass ''A'', PayloadClass ''B''] demo_handler
               (demo_overlay LibNaCLSK) demo_address demo_packet_tampered)) \<noteq> []
   \<and> ez_unpack_auth demo_imports (demo_overlay LibNaCLSK) (PayloadClass ''A'')
        demo_packet_tampered
       = ([Unpack_to_serializables [BinMemberAuthenticationPayload] ''02pkabXX'',
           Key_from_public_bin ''pk'', Get_signature_length ''pk'',
           Is_valid_signature ''pk'' ''0123456789012345678901m02pkab'' ''XX'',
           Ez_unpack_serializables [GlobalTimeDistributionPayload, PayloadClass ''A''] ''ab''],
          Inl PacketDecodingError)
   \<and> payload_deserializations
        (fst (ez_unpack_auth demo_imports (demo_overlay LibNaCLSK) (PayloadClass ''A'')
               demo_packet_tampered)) \<noteq> []"
proof -
  have header: "drop 23 demo_packet_tampered = ''02pkabXX''"
    by (simp add: demo_packet_tampered_def)
  show ?thesis
    by (simp add: lazy_wrapper_after_verify [OF demo_unpack_header(2) demo_verify_tampered]
          ez_unpack_auth_after_verify [OF demo_unpack_header(2) demo_verify_tampered]
          demo_verify_tampered demo_unpack_payloads header)
qed

theorem authenticated_unpack_order_witness:
  "payload_deserializations
     (fst (lazy_wrapper demo_imports [PayloadClass ''A'', PayloadClass ''B''] demo_handler
            (demo_overlay LibNaCLSK) demo_address demo_packet_tampered))
     = [([PayloadClass ''A'', PayloadClass ''B''], ''ab'')]
   \<and> payload_deserializations
     (fst (ez_unpack_auth demo_imports (demo_overlay LibNaCLSK) (PayloadClass ''A'')
            demo_packet_tampered))
     = [([GlobalTimeDistributionPayload, PayloadClass ''A''], ''ab'')]
   \<and> (\<exists>e. snd (lazy_wrapper demo_imports [PayloadClass ''A'', PayloadClass ''B''] demo_handler
            (demo_overlay LibNaCLSK) demo_address demo_packet_tampered) = Inl e)
   \<and> (\<exists>e. snd (ez_unpack_auth demo_imports (demo_overlay LibNaCLSK) (PayloadClass ''A'')
            demo_packet_tampered) = Inl e)
   \<and> payload_deserializations
     (fst (lazy_wrapper demo_imports [PayloadClass ''A'', PayloadClass ''B''] demo_handler
            (demo_overlay LibNaCLSK) demo_address demo_packet))
     = [([PayloadClass ''A'', PayloadClass ''B''], ''ab'')]
   \<and> snd (ez_unpack_auth demo_imports (demo_overlay LibNaCLSK) (PayloadClass ''A'') demo_packet)
     = Inr (AuthObject ''pk'', DataObject ''a'', DataObject ''b'')
   \<and> snd (verify_signature demo_imports (AuthObject []) demo_packet_bad_key)
     = Inl (Raised ''ValueError'')
   \<and> handler_calls
     (fst (lazy_wrapper demo_imports [PayloadClass ''A'', PayloadClass ''B''] demo_handler
            (demo_overlay LibNaCLSK) demo_address demo_packet_bad_key)) = []
   \<and> payload_deserializations
     (fst (lazy_wrapper demo_imports [PayloadClass ''A'', PayloadClass ''B''] demo_handler
            (demo_overlay LibNaCLSK) demo_address demo_packet_bad_key)) = []
   \<and> (\<forall>r. snd (ez_unpack_auth demo_imports (demo_overlay LibNaCLSK) (PayloadClass ''A'')
            demo_packet_bad_key) \<noteq> Inr r)"
proof -
  have checked:
    "snd (verify_signature demo_imports (AuthObject ''pk'') demo_packet) = Inr (True, ''ab'')"
    "snd (verify_signature demo_imports (AuthObject ''pk'') demo_packet_tampered)
       = Inr (False, ''ab'')"
    by (simp_all add: demo_verify_default demo_verify_tampered)
  from authenticated_unpack_order
         [where self = "demo_overlay LibNaCLSK" and func = demo_handler
            and payloads = "[PayloadClass ''A'', PayloadClass ''B'']"
            and source_address = demo_address and payload_class = "PayloadClass ''A''"
            and G = demo_imports and data = demo_packet_tampered]
       demo_unpack_header(2) [of LibNaCLSK] checked(2)
  have tampered:
    "payload_deserializations
       (fst (lazy_wrapper demo_imports [PayloadClass ''A'', PayloadClass ''B''] demo_handler
              (demo_overlay LibNaCLSK) demo_address demo_packet_tampered))
       = [([PayloadClass ''A'', PayloadClass ''B''], ''ab'')]
     \<and> payload_deserializations
       (fst (ez_unpack_auth demo_imports (demo_overlay LibNaCLSK) (PayloadClass ''A'')
              demo_packet_tampered))
       = [([GlobalTimeDistributionPayload, PayloadClass ''A''], ''ab'')]
     \<and> (\<exists>e. snd (lazy_wrapper demo_imports [PayloadClass ''A'', PayloadClass ''B''] demo_handler
              (demo_overlay LibNaCLSK) demo_address demo_packet_tampered) = Inl e)
     \<and> (\<exists>e. snd (ez_unpack_auth demo_imports (demo_overlay LibNaCLSK) (PayloadClass ''A'')
              demo_packet_tampered) = Inl e)"
    by blast
  from authenticated_unpack_order
         [where self = "demo_overlay LibNaCLSK" and func = demo_handler
            and payloads = "[PayloadClass ''A'', PayloadClass ''B'']"
            and source_address = demo_address and payload_class = "PayloadClass ''A''"
            and G = demo_imports and data = demo_packet]
       demo_unpack_header(1) [of LibNaCLSK] checked(1)
  have valid:
    "payload_deserializations
       (fst (lazy_wrapper demo_imports [PayloadClass ''A'', PayloadClass ''B''] demo_handler
              (demo_overlay LibNaCLSK) demo_address demo_packet))
       = [([PayloadClass ''A'', PayloadClass ''B''], ''ab'')]"
    by blast
  have returned:
    "snd (ez_unpack_auth demo_imports (demo_overlay LibNaCLSK) (PayloadClass ''A'') demo_packet)
       = Inr (AuthObject ''pk'', DataObject ''a'', DataObject ''b'')"
    by (simp add: ez_unpack_auth_after_verify [OF demo_unpack_header(1) demo_verify_default]
          demo_unpack_payloads)
  have header: "unpack_to_serializables (serializer (demo_overlay LibNaCLSK))
                  [BinMemberAuthenticationPayload] (drop 23 demo_packet_bad_key)
                = Inr ([AuthObject []], ''abOK'')"
    by (simp add: demo_defs demo_packet_bad_key_def)
  have refused: "snd (verify_signature demo_imports (AuthObject []) demo_packet_bad_key)
                   = Inl (Raised ''ValueError'')"
    by (simp add: verify_signature_def startswith_def demo_defs run_defs)
  have no_verdict:
    "\<not> (\<exists>auth remainder0 signature_valid remainder.
          unpack_to_serializables (serializer (demo_overlay LibNaCLSK))
            [BinMemberAuthenticationPayload] (drop 23 demo_packet_bad_key)
            = Inr ([auth], remainder0)
          \<and> snd (verify_signature demo_imports auth demo_packet_bad_key)
            = Inr (signature_valid, remainder))"
    using header refused by auto
  from authenticated_unpack_order
         [where self = "demo_overlay LibNaCLSK" and func = demo_handler
            and payloads = "[PayloadClass ''A'', PayloadClass ''B'']"
            and source_address = demo_address and payload_class = "PayloadClass ''A''"
            and G = demo_imports and data = demo_packet_bad_key]
       no_verdict
  have bad_key:
    "handler_calls
       (fst (lazy_wrapper demo_imports [PayloadClass ''A'', PayloadClass ''B''] demo_handler
              (demo_overlay LibNaCLSK) demo_address demo_packet_bad_key)) = []
     \<and> payload_deserializations
       (fst (lazy_wrapper demo_imports [PayloadClass ''A'', PayloadClass ''B''] demo_handler
              (demo_overlay LibNaCLSK) demo_address demo_packet_bad_key)) = []
     \<and> (\<forall>r. snd (ez_unpack_auth demo_imports (demo_overlay LibNaCLSK) (PayloadClass ''A'')
              demo_packet_bad_key) \<noteq> Inr r)"
    by (metis prod_cases3)
  from tampered valid returned refused bad_key show ?thesis
    by blast
qed

section \<open>Packing\<close>

lemma pack_groups_blocks:
  "map (serialized ser) format_list_list = map Some blocks
   \<Longrightarrow> pack_groups ser packet format_list_list =
         (map Pack_multiple format_list_list, Inr (packet @ concat blocks))"
proof (induction format_list_list arbitrary: packet blocks)
  case Nil
  then show ?case by (simp add: returns_def)
next
  case (Cons format_list rest)
  from Cons.prems obtain b bs where blocks: "blocks = b # bs"
    and head: "serialized ser format_list = Some b"
    and tail: "map (serialized ser) rest = map Some bs"
    by (cases blocks) auto
  from head obtain n where packed: "pack_multiple ser format_list = Inr (b, n)"
    by (auto simp: serialized_def split: sum.splits)
  show ?case
    by (simp add: packed and_then_call_Inr Cons.IH [OF tail] blocks)
qed

lemma pack_groups_no_backend:
  "\<not> list_ex accelerated_backend_event (fst (pack_groups ser packet format_list_list))
   \<and> \<not> list_ex default_backend_event (fst (pack_groups ser packet format_list_list))"
proof (induction format_list_list arbitrary: packet)
  case Nil
  then show ?case by (simp add: returns_def)
next
  case (Cons format_list rest)
  show ?case
  proof (cases "pack_multiple ser format_list")
    case (Inl e)
    then show ?thesis by (simp add: and_then_call_Inl)
  next
    case (Inr packed)
    then show ?thesis using Cons.IH [of "packet @ fst packed"]
      by (simp add: and_then_call_Inr)
  qed
qed


text \<open>Without signing, \<open>_ez_pack\<close> is the message-id byte followed by the loop.\<close>

lemma ez_pack_unsigned:
  "ez_pack G self prefix msg_num format_list_list False =
     (case cast_to_bin_chr msg_num of
        Inl e \<Rightarrow> ([], Inl e)
      | Inr b \<Rightarrow> pack_groups (serializer self) (prefix @ b) format_list_list)"
  by (auto simp: ez_pack_def and_then_def returns_def raises_def split: sum.splits prod.splits)

text \<open>With signing, one call of a signing backend follows the assembled packet.\<close>

lemma ez_pack_signed:
  assumes "ez_pack G self prefix msg_num format_list_list False = (tr, Inr packet)"
  shows "ez_pack G self prefix msg_num format_list_list True =
           (if key_type (peer_key (my_peer self)) = LibNaCLSK then
              (tr @ [Borrowed_create_signature (key_seed (peer_key (my_peer self)))
                       (veri_vk (peer_key (my_peer self))) packet],
               borrowed_create_signature (borrowed_bundler G) (key_seed (peer_key (my_peer self)))
                       (veri_vk (peer_key (my_peer self))) packet)
            else
              (tr @ [Create_signature (peer_key (my_peer self)) packet],
               case create_signature (default_eccrypto G) (peer_key (my_peer self)) packet of
                 Inl e \<Rightarrow> Inl e | Inr signature \<Rightarrow> Inr (packet @ signature)))"
  using assms
  by (auto simp: ez_pack_def and_then_def returns_def raises_def call_def Let_def
        split: sum.splits prod.splits)




lemma ez_pack_unsigned_blocks:
  assumes "0 \<le> msg_num" "msg_num < 256"
    and "map (serialized (serializer self)) format_list_list = map Some blocks"
  shows "ez_pack G self prefix msg_num format_list_list False =
           (map Pack_multiple format_list_list,
            Inr (prefix @ [char_of msg_num] @ concat blocks))"
  using assms(1,2)
  by (simp add: ez_pack_unsigned cast_to_bin_chr_def pack_groups_blocks [OF assms(3)])

lemma demo_serialized: "serialized (serializer (demo_overlay t)) format_list = Some format_list"
  by (simp add: serialized_def demo_defs)

lemma demo_message_id: "char_of (109 :: int) = CHR ''m''"
  by (simp add: char_of_def)





text \<open>
  Claim C9. When \<open>_ez_pack\<close> signs a packet that it has assembled, the signing
  backend is chosen by \<open>type(self.my_peer.key) == LibNaCLSK\<close>: a key of exactly
  that type has the packet handed to the bundler, with the key's seed and verification
  key, and the bundler's result is the result; every other key, a key of a proper
  subclass of \<open>LibNaCLSK\<close> included, has the packet signed by
  \<open>default_eccrypto.create_signature\<close> and the signature appended. The accelerated
  backend is called if and only if the type is exactly \<open>LibNaCLSK\<close>, the default
  backend if and only if it is not.
\<close>

theorem ez_pack_backend_by_exact_type:
  assumes "ez_pack G self prefix msg_num format_list_list False = (tr, Inr packet)"
  shows
    "(key_type (peer_key (my_peer self)) = LibNaCLSK \<longrightarrow>
        ez_pack G self prefix msg_num format_list_list True =
          (tr @ [Borrowed_create_signature (key_seed (peer_key (my_peer self)))
                   (veri_vk (peer_key (my_peer self))) packet],
           borrowed_create_signature (borrowed_bundler G) (key_seed (peer_key (my_peer self)))
                   (veri_vk (peer_key (my_peer self))) packet))
     \<and> (key_type (peer_key (my_peer self)) \<noteq> LibNaCLSK \<longrightarrow>
        ez_pack G self prefix msg_num format_list_list True =
          (tr @ [Create_signature (peer_key (my_peer self)) packet],
           case create_signature (default_eccrypto G) (peer_key (my_peer self)) packet of
             Inl e \<Rightarrow> Inl e | Inr signature \<Rightarrow> Inr (packet @ signature)))
     \<and> (list_ex accelerated_backend_event (fst (ez_pack G self prefix msg_num format_list_list True))
          \<longleftrightarrow> key_type (peer_key (my_peer self)) = LibNaCLSK)
     \<and> (list_ex default_backend_event (fst (ez_pack G self prefix msg_num format_list_list True))
          \<longleftrightarrow> key_type (peer_key (my_peer self)) \<noteq> LibNaCLSK)
     \<and> (issubclass_LibNaCLSK (key_type (peer_key (my_peer self)))
          \<and> key_type (peer_key (my_peer self)) \<noteq> LibNaCLSK \<longrightarrow>
          last (fst (ez_pack G self prefix msg_num format_list_list True))
            = Create_signature (peer_key (my_peer self)) packet)"
proof -
  from assms obtain b where b: "cast_to_bin_chr msg_num = Inr b"
    and tr: "tr = fst (pack_groups (serializer self) (prefix @ b) format_list_list)"
    by (auto simp: ez_pack_unsigned split: sum.splits)
  have quiet: "\<not> list_ex accelerated_backend_event tr" "\<not> list_ex default_backend_event tr"
    by (simp_all add: tr pack_groups_no_backend)
  show ?thesis
    using quiet by (simp add: ez_pack_signed [OF assms] list_ex_iff)
qed

theorem ez_pack_backend_by_exact_type_witness:
  "issubclass_LibNaCLSK (DerivedFrom LibNaCLSK ''HardwareKey'')
   \<and> DerivedFrom LibNaCLSK ''HardwareKey'' \<noteq> LibNaCLSK
   \<and> ez_pack demo_imports (demo_overlay (DerivedFrom LibNaCLSK ''HardwareKey''))
        ''0123456789012345678901'' 109 [''a'', ''b''] True
       = ([Pack_multiple ''a'', Pack_multiple ''b'',
           Create_signature
             \<lparr>key_type = DerivedFrom LibNaCLSK ''HardwareKey'', veri_vk = ''vk'',
              key_seed = ''seed''\<rparr> ''0123456789012345678901mab''],
          Inr ''0123456789012345678901mabOK'')
   \<and> ez_pack demo_imports (demo_overlay LibNaCLSK)
        ''0123456789012345678901'' 109 [''a'', ''b''] True
       = ([Pack_multiple ''a'', Pack_multiple ''b'',
           Borrowed_create_signature ''seed'' ''vk'' ''0123456789012345678901mab''],
          Inr ''0123456789012345678901mabRS'')"
proof -
  have unsigned: "ez_pack demo_imports (demo_overlay t)
                    ''0123456789012345678901'' 109 [''a'', ''b''] False
      = ([Pack_multiple ''a'', Pack_multiple ''b''], Inr ''0123456789012345678901mab'')" for t
    using ez_pack_unsigned_blocks
            [where self = "demo_overlay t" and msg_num = 109 and format_list_list = "[''a'', ''b'']"
               and blocks = "[''a'', ''b'']" and G = demo_imports
               and prefix = "''0123456789012345678901''"]
    by (simp add: demo_serialized demo_message_id)
  have key: "peer_key (my_peer (demo_overlay t))
               = \<lparr>key_type = t, veri_vk = ''vk'', key_seed = ''seed''\<rparr>" for t
    by (simp add: demo_overlay_def)
  have backends:
    "create_signature (default_eccrypto demo_imports) k packet = Inr ''OK''"
    "borrowed_create_signature (borrowed_bundler demo_imports) seed vk packet
       = Inr (packet @ ''RS'')" for k seed vk packet
    by (simp_all add: demo_defs)
  have derived: "issubclass_LibNaCLSK (DerivedFrom LibNaCLSK ''HardwareKey'')
                 \<and> DerivedFrom LibNaCLSK ''HardwareKey'' \<noteq> LibNaCLSK"
    by simp
  from ez_pack_backend_by_exact_type [OF unsigned [of "DerivedFrom LibNaCLSK ''HardwareKey''"]]
  have default:
    "ez_pack demo_imports (demo_overlay (DerivedFrom LibNaCLSK ''HardwareKey''))
        ''0123456789012345678901'' 109 [''a'', ''b''] True
       = ([Pack_multiple ''a'', Pack_multiple ''b'',
           Create_signature
             \<lparr>key_type = DerivedFrom LibNaCLSK ''HardwareKey'', veri_vk = ''vk'',
              key_seed = ''seed''\<rparr> ''0123456789012345678901mab''],
          Inr ''0123456789012345678901mabOK'')"
    by (simp add: key backends)
  from ez_pack_backend_by_exact_type [OF unsigned [of LibNaCLSK]]
  have accelerated:
    "ez_pack demo_imports (demo_overlay LibNaCLSK)
        ''0123456789012345678901'' 109 [''a'', ''b''] True
       = ([Pack_multiple ''a'', Pack_multiple ''b'',
           Borrowed_create_signature ''seed'' ''vk'' ''0123456789012345678901mab''],
          Inr ''0123456789012345678901mabRS'')"
    by (simp add: key backends)
  from derived default accelerated show ?thesis
    by blast
qed

section \<open>Unauthenticated unpacking\<close>

text \<open>
  Claim C10. The shape of what \<open>_ez_unpack_noauth\<close> returns depends on
  \<open>global_time\<close>. With the flag set, it deserializes
  \<open>[GlobalTimeDistributionPayload, payload_class]\<close> from \<open>data[23:]\<close> and returns
  the serializer's list as it is: the two-element sequence of the global-time payload
  and the payload, when the serializer yields one object per class. With the flag
  unset, it deserializes \<open>[payload_class]\<close> from \<open>data[23:]\<close> and returns the
  first decoded object itself, not a list.
\<close>

theorem ez_unpack_noauth_shape:
  "ez_unpack_noauth self payload_class data True =
     ([Ez_unpack_serializables [GlobalTimeDistributionPayload, payload_class] (drop 23 data)],
      case ez_unpack_serializables (serializer self)
             [GlobalTimeDistributionPayload, payload_class] (drop 23 data) of
        Inl e \<Rightarrow> Inl e | Inr unpacked \<Rightarrow> Inr (PayloadList unpacked))
   \<and> (\<forall>global_time_payload payload.
        ez_unpack_serializables (serializer self)
          [GlobalTimeDistributionPayload, payload_class] (drop 23 data)
          = Inr [global_time_payload, payload] \<longrightarrow>
        snd (ez_unpack_noauth self payload_class data True)
          = Inr (PayloadList [global_time_payload, payload]))
   \<and> fst (ez_unpack_noauth self payload_class data False)
        = [Ez_unpack_serializables [payload_class] (drop 23 data)]
   \<and> (\<forall>payload others.
        ez_unpack_serializables (serializer self) [payload_class] (drop 23 data)
          = Inr (payload # others) \<longrightarrow>
        snd (ez_unpack_noauth self payload_class data False) = Inr (PayloadObject payload))"
  by (auto simp: ez_unpack_noauth_def Let_def py_slice_from and_then_def call_def returns_def
        raises_def split: sum.splits list.splits)

theorem ez_unpack_noauth_shape_witness:
  "ez_unpack_serializables (serializer (demo_overlay LibNaCLSK))
     [GlobalTimeDistributionPayload, PayloadClass ''A''] (drop 23 demo_packet_unsigned)
     = Inr [DataObject ''g'', DataObject ''a'']
   \<and> snd (ez_unpack_noauth (demo_overlay LibNaCLSK) (PayloadClass ''A'') demo_packet_unsigned True)
     = Inr (PayloadList [DataObject ''g'', DataObject ''a''])
   \<and> ez_unpack_serializables (serializer (demo_overlay LibNaCLSK))
     [PayloadClass ''A''] (drop 23 demo_packet_unsigned) = Inr [DataObject ''g'']
   \<and> snd (ez_unpack_noauth (demo_overlay LibNaCLSK) (PayloadClass ''A'') demo_packet_unsigned False)
     = Inr (PayloadObject (DataObject ''g''))"
proof -
  have two: "ez_unpack_serializables (serializer (demo_overlay LibNaCLSK))
               [GlobalTimeDistributionPayload, PayloadClass ''A''] (drop 23 demo_packet_unsigned)
             = Inr [DataObject ''g'', DataObject ''a'']"
    by (simp add: demo_defs demo_packet_unsigned_def)
  have one: "ez_unpack_serializables (serializer (demo_overlay LibNaCLSK))
               [PayloadClass ''A''] (drop 23 demo_packet_unsigned) = Inr [DataObject ''g'']"
    by (simp add: demo_defs demo_packet_unsigned_def)
  from ez_unpack_noauth_shape
         [of "demo_overlay LibNaCLSK" "PayloadClass ''A''" demo_packet_unsigned] two one
  have "snd (ez_unpack_noauth (demo_overlay LibNaCLSK) (PayloadClass ''A'')
               demo_packet_unsigned True)
          = Inr (PayloadList [DataObject ''g'', DataObject ''a''])
        \<and> snd (ez_unpack_noauth (demo_overlay LibNaCLSK) (PayloadClass ''A'')
               demo_packet_unsigned False)
          = Inr (PayloadObject (DataObject ''g''))"
    by blast
  with two one show ?thesis
    by blast
qed


end
